theory Spec2Isabelle
  imports Main
begin

section \<open>Data model (pkg/models/user.go)\<close>

text \<open>
  \<^verbatim>\<open>type User struct { Email, FirstName, LastName string }\<close>.
  A Go string is a sequence of bytes and \<^verbatim>\<open>len\<close> counts bytes; so does \<open>length\<close> on
  \<open>string\<close>, whose characters are bytes.
\<close>

record user =
  Email :: string
  FirstName :: string
  LastName :: string

text \<open>
  A Go \<^verbatim>\<open>error\<close> is used by this program only through its message
  (\<^verbatim>\<open>err.Error()\<close>), so an error value is its message. A nil error is \<open>None\<close>.
\<close>

type_synonym error = string

section \<open>Validation (pkg/validators/validators.go)\<close>

subsection \<open>Regular expressions\<close>

text \<open>
  The constructs the pattern \<^verbatim>\<open>rxEmail\<close> is built from: a character class, a
  literal, concatenation, \<^verbatim>\<open>?\<close>, \<^verbatim>\<open>*\<close>, \<^verbatim>\<open>+\<close> and the counted repetition
  \<^verbatim>\<open>{0,n}\<close>. \<open>Zero\<close> (no string) and \<open>One\<close> (the empty string) are needed to
  take derivatives.
\<close>

datatype rx =
    Zero
  | One
  | Atom "char \<Rightarrow> bool"
  | Alt rx rx
  | Seq rx rx
  | Star rx
  | Upto nat rx

definition Lit :: "char \<Rightarrow> rx" where
  "Lit c = Atom (\<lambda>d. d = c)"

definition Opt :: "rx \<Rightarrow> rx" where
  "Opt r = Alt One r"

definition Plus :: "rx \<Rightarrow> rx" where
  "Plus r = Seq r (Star r)"

text \<open>The strings a pattern denotes.\<close>

definition conc :: "string set \<Rightarrow> string set \<Rightarrow> string set" where
  "conc A B = {xs @ ys | xs ys. xs \<in> A \<and> ys \<in> B}"

inductive_set star :: "string set \<Rightarrow> string set" for A :: "string set" where
  star_nil: "[] \<in> star A"
| star_app: "x \<in> A \<Longrightarrow> xs \<in> star A \<Longrightarrow> x @ xs \<in> star A"

fun at_most :: "nat \<Rightarrow> string set \<Rightarrow> string set" where
  "at_most 0 A = {[]}"
| "at_most (Suc n) A = {[]} \<union> conc A (at_most n A)"

fun lang :: "rx \<Rightarrow> string set" where
  "lang Zero = {}"
| "lang One = {[]}"
| "lang (Atom p) = {[c] | c. p c}"
| "lang (Alt r s) = lang r \<union> lang s"
| "lang (Seq r s) = conc (lang r) (lang s)"
| "lang (Star r) = star (lang r)"
| "lang (Upto n r) = at_most n (lang r)"

text \<open>The matcher: derivatives, one input byte at a time.\<close>

fun nullable :: "rx \<Rightarrow> bool" where
  "nullable Zero = False"
| "nullable One = True"
| "nullable (Atom p) = False"
| "nullable (Alt r s) = (nullable r \<or> nullable s)"
| "nullable (Seq r s) = (nullable r \<and> nullable s)"
| "nullable (Star r) = True"
| "nullable (Upto n r) = True"

fun deriv :: "char \<Rightarrow> rx \<Rightarrow> rx" where
  "deriv c Zero = Zero"
| "deriv c One = Zero"
| "deriv c (Atom p) = (if p c then One else Zero)"
| "deriv c (Alt r s) = Alt (deriv c r) (deriv c s)"
| "deriv c (Seq r s) =
     (if nullable r then Alt (Seq (deriv c r) s) (deriv c s) else Seq (deriv c r) s)"
| "deriv c (Star r) = Seq (deriv c r) (Star r)"
| "deriv c (Upto n r) = (case n of 0 \<Rightarrow> Zero | Suc m \<Rightarrow> Seq (deriv c r) (Upto m r))"

text \<open>
  \<^verbatim>\<open>rx.MatchString(s)\<close> for a pattern written between \<^verbatim>\<open>^\<close> and \<^verbatim>\<open>$\<close>: the whole
  of \<open>s\<close> has to match (in Go's syntax \<^verbatim>\<open>$\<close> without the \<^verbatim>\<open>m\<close> flag is the end of
  the text).
\<close>

definition MatchString :: "rx \<Rightarrow> string \<Rightarrow> bool" where
  "MatchString r s = nullable (foldl (\<lambda>q c. deriv c q) r s)"

subsection \<open>The email pattern\<close>

text \<open>
  \<^verbatim>\<open>^[a-zA-Z0-9.!#$%&'*+/=?^_`{|}~-]+@[a-zA-Z0-9](?:[a-zA-Z0-9-]{0,61}[a-zA-Z0-9])?
  (?:\.[a-zA-Z0-9](?:[a-zA-Z0-9-]{0,61}[a-zA-Z0-9])?)*$\<close>
  (one line in the source). Every class is ASCII, so a byte outside ASCII matches
  nothing, as a rune outside ASCII does in Go.
\<close>

definition alnum :: "char \<Rightarrow> bool" where
  "alnum c \<longleftrightarrow> c \<in> set (''abcdefghijklmnopqrstuvwxyz'' @
                        ''ABCDEFGHIJKLMNOPQRSTUVWXYZ'' @ ''0123456789'')"

definition local_char :: "char \<Rightarrow> bool" where
  "local_char c \<longleftrightarrow> alnum c \<or> c \<in> set (''.!#$%&'' @ [CHR 0x27] @ ''*+/=?^_`{|}~-'')"

definition alnum_hyphen :: "char \<Rightarrow> bool" where
  "alnum_hyphen c \<longleftrightarrow> alnum c \<or> c = CHR ''-''"

definition label :: rx where
  "label = Seq (Atom alnum) (Opt (Seq (Upto 61 (Atom alnum_hyphen)) (Atom alnum)))"

definition rxEmail :: rx where
  "rxEmail =
     Seq (Plus (Atom local_char))
       (Seq (Lit (CHR ''@''))
         (Seq label (Star (Seq (Lit (CHR ''.'')) label))))"

subsection \<open>IsEmailValid and ValidateUser\<close>

definition IsEmailValid :: "string \<Rightarrow> bool" where
  "IsEmailValid email =
     (if length email < 3 \<or> length email > 254 \<or> \<not> MatchString rxEmail email
      then False else True)"

definition ValidateUser :: "user \<Rightarrow> error option" where
  "ValidateUser u =
     (if Email u = '''' then Some ''email is required''
      else if \<not> IsEmailValid (Email u) then Some ''invalid email format''
      else if FirstName u = '''' then Some ''first name is required''
      else if LastName u = '''' then Some ''last name is required''
      else None)"

text \<open>The left quotient of a set of strings by a byte, used to verify the matcher.\<close>

definition left_quot :: "char \<Rightarrow> string set \<Rightarrow> string set" where
  "left_quot c A = {xs. c # xs \<in> A}"

text \<open>The bytes that the classes and literals of a pattern admit.\<close>

fun atoms :: "rx \<Rightarrow> char set" where
  "atoms Zero = {}"
| "atoms One = {}"
| "atoms (Atom p) = {c. p c}"
| "atoms (Alt r s) = atoms r \<union> atoms s"
| "atoms (Seq r s) = atoms r \<union> atoms s"
| "atoms (Star r) = atoms r"
| "atoms (Upto n r) = atoms r"

section \<open>Storage access (package repository)\<close>

definition ErrorFailedToUnmarshalRecord :: error where
  "ErrorFailedToUnmarshalRecord = ''failed to unmarshal record''"

definition ErrorFailedToFetchRecord :: error where
  "ErrorFailedToFetchRecord = ''failed to fetch record from DynamoDB''"

definition ErrorCouldNotMarshalItem :: error where
  "ErrorCouldNotMarshalItem = ''could not marshal item''"

definition ErrorCouldNotDeleteItem :: error where
  "ErrorCouldNotDeleteItem = ''could not delete item''"

definition ErrorCouldNotDynamoPutItem :: error where
  "ErrorCouldNotDynamoPutItem = ''could not put item into DynamoDB''"

definition ErrorUserAlreadyExists :: error where
  "ErrorUserAlreadyExists = ''user already exists''"

definition ErrorUserDoesNotExist :: error where
  "ErrorUserDoesNotExist = ''user does not exist''"

definition ErrorCouldNotScanItems :: error where
  "ErrorCouldNotScanItems = ''could not scan items from DynamoDB''"

definition ErrorInvalidLastEvaluatedKey :: error where
  "ErrorInvalidLastEvaluatedKey = ''invalid last evaluated key for pagination''"

text \<open>\<^verbatim>\<open>fmt.Errorf("%s: %w", msg, err)\<close>: the message of the wrapping error.\<close>

definition Errorf :: "string \<Rightarrow> error \<Rightarrow> error" where
  "Errorf msg err = msg @ '': '' @ err"

text \<open>
  A Go slice of users: \<open>None\<close> is the nil slice, which \<^verbatim>\<open>encoding/json\<close> writes
  differently from an empty one.
\<close>

type_synonym users = "user list option"

text \<open>
  The interface \<^verbatim>\<open>UserRepository\<close>. Each method takes the state \<open>'w\<close> of whatever is
  behind the repository and returns it with the result. A result \<^verbatim>\<open>(*User, error)\<close>
  is \<open>Inl err\<close> when the error is not nil (no caller looks at the pointer then) and
  otherwise \<open>Inr p\<close> with the pointer \<open>p\<close>, \<open>None\<close> being nil.
\<close>

record 'w UserRepository =
  FetchUser :: "string \<Rightarrow> 'w \<Rightarrow> (error + user option) \<times> 'w"
  FetchUsers :: "int \<Rightarrow> string \<Rightarrow> 'w \<Rightarrow> (error + users \<times> string) \<times> 'w"
  CreateUser :: "user \<Rightarrow> 'w \<Rightarrow> (error + user option) \<times> 'w"
  UpdateUser :: "user \<Rightarrow> 'w \<Rightarrow> (error + user option) \<times> 'w"
  DeleteUser :: "string \<Rightarrow> 'w \<Rightarrow> error option \<times> 'w"

text \<open>
  What \<^verbatim>\<open>DynamoDBUserRepository\<close> calls in the AWS SDK, which is not part of this
  repository: the four calls it makes on its client (for the one table it is
  configured with, keyed by the attribute \<^verbatim>\<open>email\<close>), and the conversions between
  users, items (\<open>'i\<close>) and scan keys (\<open>'k\<close>). A call on the client may change the
  state \<open>'w\<close> behind it. \<open>GetItem\<close> returns \<open>Inr None\<close> when \<^verbatim>\<open>result.Item\<close> is nil.
  What the repository and the handlers write to the process log is left out.
\<close>

record ('w, 'i, 'k) sdk =
  GetItem :: "string \<Rightarrow> 'w \<Rightarrow> (error + 'i option) \<times> 'w"
  PutItem :: "'i \<Rightarrow> 'w \<Rightarrow> error option \<times> 'w"
  DeleteItem :: "string \<Rightarrow> 'w \<Rightarrow> error option \<times> 'w"
  Scan :: "int \<Rightarrow> 'k option \<Rightarrow> 'w \<Rightarrow> (error + 'i list \<times> 'k option) \<times> 'w"
  MarshalMap :: "user \<Rightarrow> error + 'i"
  UnmarshalMap :: "'i \<Rightarrow> error + user"
  UnmarshalListOfMaps :: "'i list \<Rightarrow> error + users"
  UnmarshalKey :: "string \<Rightarrow> error + 'k option"
  MarshalKey :: "'k \<Rightarrow> error + string"

definition repository_FetchUser ::
  "('w, 'i, 'k) sdk \<Rightarrow> string \<Rightarrow> 'w \<Rightarrow> (error + user option) \<times> 'w" where
  "repository_FetchUser c email w =
     (case GetItem c email w of
        (Inl err, w') \<Rightarrow> (Inl (Errorf ErrorFailedToFetchRecord err), w')
      | (Inr None, w') \<Rightarrow> (Inr None, w')
      | (Inr (Some it), w') \<Rightarrow>
          (case UnmarshalMap c it of
             Inl err \<Rightarrow> (Inl (Errorf ErrorFailedToUnmarshalRecord err), w')
           | Inr u \<Rightarrow> (Inr (Some u), w')))"

definition repository_FetchUsers ::
  "('w, 'i, 'k) sdk \<Rightarrow> int \<Rightarrow> string \<Rightarrow> 'w \<Rightarrow> (error + users \<times> string) \<times> 'w" where
  "repository_FetchUsers c limit lastEvaluatedKey w =
     (case (if lastEvaluatedKey \<noteq> '''' then UnmarshalKey c lastEvaluatedKey else Inr None) of
        Inl err \<Rightarrow> (Inl ErrorInvalidLastEvaluatedKey, w)
      | Inr startKey \<Rightarrow>
          (case Scan c limit startKey w of
             (Inl err, w') \<Rightarrow> (Inl (Errorf ErrorCouldNotScanItems err), w')
           | (Inr (items, lek), w') \<Rightarrow>
               (case UnmarshalListOfMaps c items of
                  Inl err \<Rightarrow> (Inl (Errorf ErrorFailedToUnmarshalRecord err), w')
                | Inr us \<Rightarrow>
                    (case lek of
                       None \<Rightarrow> (Inr (us, ''''), w')
                     | Some k \<Rightarrow>
                         (case MarshalKey c k of
                            Inl err \<Rightarrow>
                              (Inl (Errorf ''could not marshal LastEvaluatedKey'' err), w')
                          | Inr s \<Rightarrow> (Inr (us, s), w'))))))"

definition repository_CreateUser ::
  "('w, 'i, 'k) sdk \<Rightarrow> user \<Rightarrow> 'w \<Rightarrow> (error + user option) \<times> 'w" where
  "repository_CreateUser c u w =
     (case repository_FetchUser c (Email u) w of
        (Inl err, w') \<Rightarrow> (Inl err, w')
      | (Inr (Some currentUser), w') \<Rightarrow> (Inl ErrorUserAlreadyExists, w')
      | (Inr None, w') \<Rightarrow>
          (case MarshalMap c u of
             Inl err \<Rightarrow> (Inl (Errorf ErrorCouldNotMarshalItem err), w')
           | Inr av \<Rightarrow>
               (case PutItem c av w' of
                  (Some err, w'') \<Rightarrow> (Inl (Errorf ErrorCouldNotDynamoPutItem err), w'')
                | (None, w'') \<Rightarrow> (Inr (Some u), w''))))"

definition repository_UpdateUser ::
  "('w, 'i, 'k) sdk \<Rightarrow> user \<Rightarrow> 'w \<Rightarrow> (error + user option) \<times> 'w" where
  "repository_UpdateUser c u w =
     (case repository_FetchUser c (Email u) w of
        (Inl err, w') \<Rightarrow> (Inl err, w')
      | (Inr None, w') \<Rightarrow> (Inl ErrorUserDoesNotExist, w')
      | (Inr (Some currentUser), w') \<Rightarrow>
          (case MarshalMap c u of
             Inl err \<Rightarrow> (Inl (Errorf ErrorCouldNotMarshalItem err), w')
           | Inr av \<Rightarrow>
               (case PutItem c av w' of
                  (Some err, w'') \<Rightarrow> (Inl (Errorf ErrorCouldNotDynamoPutItem err), w'')
                | (None, w'') \<Rightarrow> (Inr (Some u), w''))))"

definition repository_DeleteUser ::
  "('w, 'i, 'k) sdk \<Rightarrow> string \<Rightarrow> 'w \<Rightarrow> error option \<times> 'w" where
  "repository_DeleteUser c email w =
     (case repository_FetchUser c email w of
        (Inl err, w') \<Rightarrow> (Some err, w')
      | (Inr None, w') \<Rightarrow> (Some ErrorUserDoesNotExist, w')
      | (Inr (Some currentUser), w') \<Rightarrow>
          (case DeleteItem c email w' of
             (Some err, w'') \<Rightarrow> (Some (Errorf ErrorCouldNotDeleteItem err), w'')
           | (None, w'') \<Rightarrow> (None, w'')))"

definition NewDynamoDBUserRepository :: "('w, 'i, 'k) sdk \<Rightarrow> 'w UserRepository" where
  "NewDynamoDBUserRepository c =
     \<lparr>FetchUser = repository_FetchUser c,
      FetchUsers = repository_FetchUsers c,
      CreateUser = repository_CreateUser c,
      UpdateUser = repository_UpdateUser c,
      DeleteUser = repository_DeleteUser c\<rparr>"

subsection \<open>The table behind the client\<close>

text \<open>
  The store itself is outside the repository. To state what the repository does to a
  store, the client is bound to a table of user records with \<^verbatim>\<open>email\<close> as its key, the
  table the README has one create: \<^verbatim>\<open>GetItem\<close> returns the item stored under the
  key, \<^verbatim>\<open>PutItem\<close> replaces the item that has the new item's key or adds the item,
  \<^verbatim>\<open>DeleteItem\<close> removes the item under the key. Beside the table the state holds
  the outcome of the coming calls on the client, one entry a call: \<open>Some msg\<close> makes
  the call fail with \<open>msg\<close> (network, throttling, permission) and leave the table as it
  is, \<open>None\<close> lets it through; when the list is used up every call goes through.
\<close>

record store =
  table :: "user list"
  faults :: "error option list"

definition next_fault :: "store \<Rightarrow> error option \<times> store" where
  "next_fault w =
     (case faults w of [] \<Rightarrow> (None, w) | f # fs \<Rightarrow> (f, w\<lparr>faults := fs\<rparr>))"

fun put_item :: "user \<Rightarrow> user list \<Rightarrow> user list" where
  "put_item u [] = [u]"
| "put_item u (x # xs) = (if Email x = Email u then u # xs else x # put_item u xs)"

definition table_GetItem :: "string \<Rightarrow> store \<Rightarrow> (error + user option) \<times> store" where
  "table_GetItem key w =
     (case next_fault w of
        (Some err, w') \<Rightarrow> (Inl err, w')
      | (None, w') \<Rightarrow> (Inr (find (\<lambda>x. Email x = key) (table w')), w'))"

definition table_PutItem :: "user \<Rightarrow> store \<Rightarrow> error option \<times> store" where
  "table_PutItem it w =
     (case next_fault w of
        (Some err, w') \<Rightarrow> (Some err, w')
      | (None, w') \<Rightarrow> (None, w'\<lparr>table := put_item it (table w')\<rparr>))"

definition table_DeleteItem :: "string \<Rightarrow> store \<Rightarrow> error option \<times> store" where
  "table_DeleteItem key w =
     (case next_fault w of
        (Some err, w') \<Rightarrow> (Some err, w')
      | (None, w') \<Rightarrow> (None, w'\<lparr>table := filter (\<lambda>x. Email x \<noteq> key) (table w')\<rparr>))"

text \<open>
  The client on the table. Items are the user records themselves, so the two
  conversions of a single record succeed; scanning and its conversions are those of
  the given \<open>c\<close>, whatever they are.
\<close>

definition on_table :: "(store, user, 'k) sdk \<Rightarrow> (store, user, 'k) sdk" where
  "on_table c =
     c\<lparr>GetItem := table_GetItem, PutItem := table_PutItem, DeleteItem := table_DeleteItem,
       MarshalMap := Inr, UnmarshalMap := Inr\<rparr>"

text \<open>Sequential repository operations, run one after the other on the store.\<close>

datatype operation = Fetch string | Create user | Update user | Delete string

fun run_operation :: "(store, user, 'k) sdk \<Rightarrow> operation \<Rightarrow> store \<Rightarrow> store" where
  "run_operation c (Fetch email) w = snd (repository_FetchUser (on_table c) email w)"
| "run_operation c (Create u) w = snd (repository_CreateUser (on_table c) u w)"
| "run_operation c (Update u) w = snd (repository_UpdateUser (on_table c) u w)"
| "run_operation c (Delete email) w = snd (repository_DeleteUser (on_table c) email w)"

definition run_operations :: "(store, user, 'k) sdk \<Rightarrow> operation list \<Rightarrow> store \<Rightarrow> store" where
  "run_operations c ops w = foldl (\<lambda>w' op. run_operation c op w') w ops"

definition unique_emails :: "store \<Rightarrow> bool" where
  "unique_emails w \<longleftrightarrow> distinct (map Email (table w))"

text \<open>
  Shorthand for the statements: the record a store holds under a key, and that the
  next call on the client goes through.
\<close>

abbreviation stored :: "store \<Rightarrow> string \<Rightarrow> user option" where
  "stored w email \<equiv> find (\<lambda>x. Email x = email) (table w)"

abbreviation goes_through :: "store \<Rightarrow> bool" where
  "goes_through w \<equiv> fst (next_fault w) = None"

section \<open>Response formatting (package handlers)\<close>

text \<open>
  \<^verbatim>\<open>events.APIGatewayProxyRequest\<close> and \<^verbatim>\<open>events.APIGatewayProxyResponse\<close>, with the
  fields this program reads and writes. The body of a request is \<open>RequestBody\<close>, since
  \<open>Body\<close> names the body of a response.
\<close>

record request =
  HTTPMethod :: string
  QueryStringParameters :: "string \<rightharpoonup> string"
  RequestBody :: string

record response =
  StatusCode :: int
  Headers :: "string \<rightharpoonup> string"
  Body :: string

text \<open>Reading a Go map of strings: a key that is not there reads as the empty string.\<close>

definition param :: "(string \<rightharpoonup> string) \<Rightarrow> string \<Rightarrow> string" where
  "param m k = (case m k of None \<Rightarrow> '''' | Some v \<Rightarrow> v)"

text \<open>
  What the handlers call in \<^verbatim>\<open>encoding/json\<close> and leave to it: how a string with a
  byte that has to be escaped, or a byte outside ASCII, is written
  (\<open>encodeString\<close>, the quotes included), and the decoding of a request body into a
  \<^verbatim>\<open>models.User\<close> (\<open>UnmarshalUser\<close>).
\<close>

record json =
  encodeString :: "string \<Rightarrow> string"
  UnmarshalUser :: "string \<Rightarrow> error + user"

text \<open>
  The printable ASCII bytes that \<^verbatim>\<open>json.Marshal\<close> copies as they are: all but the
  double quote, the backslash and, as it escapes HTML, \<^verbatim>\<open><\<close>, \<^verbatim>\<open>>\<close> and \<^verbatim>\<open>&\<close>.
\<close>

definition plain :: "char \<Rightarrow> bool" where
  "plain c \<longleftrightarrow>
     32 \<le> (of_char c :: nat) \<and> (of_char c :: nat) \<le> 126 \<and>
     c \<notin> {CHR 0x22, CHR 0x5C, CHR ''<'', CHR ''>'', CHR ''&''}"

definition marshal_string :: "json \<Rightarrow> string \<Rightarrow> string" where
  \<open>marshal_string j s = (if list_all plain s then ''"'' @ s @ ''"'' else encodeString j s)\<close>

text \<open>A \<^verbatim>\<open>models.User\<close>: the three fields under their \<^verbatim>\<open>json\<close> tags, in the order of the struct.\<close>

definition marshal_User :: "json \<Rightarrow> user \<Rightarrow> string" where
  \<open>marshal_User j u =
     ''{"email":'' @ marshal_string j (Email u) @
     '',"firstName":'' @ marshal_string j (FirstName u) @
     '',"lastName":'' @ marshal_string j (LastName u) @ ''}''\<close>

fun commas :: "string list \<Rightarrow> string" where
  "commas [] = ''''"
| "commas [x] = x"
| "commas (x # y # ys) = x @ '','' @ commas (y # ys)"

definition marshal_users :: "json \<Rightarrow> users \<Rightarrow> string" where
  "marshal_users j us =
     (case us of None \<Rightarrow> ''null'' | Some xs \<Rightarrow> ''['' @ commas (map (marshal_User j) xs) @ '']'')"

text \<open>
  The values handed to \<^verbatim>\<open>apiResponse\<close> as its \<^verbatim>\<open>body interface{}\<close>:
  \<^item> \<open>nil\<close>, the untyped nil;
  \<^item> \<open>ErrorBody m\<close>, the struct \<^verbatim>\<open>ErrorBody{ErrorMsg: m}\<close> with its pointer \<open>m\<close>;
  \<^item> \<open>UserPtr p\<close>, a \<^verbatim>\<open>*models.User\<close>;
  \<^item> \<open>UsersMap us k\<close>, the \<^verbatim>\<open>map[string]interface{}\<close> of \<^verbatim>\<open>GetUser\<close>: \<^verbatim>\<open>"users"\<close> is
    \<open>us\<close>, and \<^verbatim>\<open>"lastEvaluatedKey"\<close> is in the map when \<open>k\<close> is \<open>Some\<close> string;
  \<^item> \<open>Other r\<close>, any other Go value, \<open>r\<close> being what \<^verbatim>\<open>json.Marshal\<close> returns for it.
\<close>

datatype body =
    nil
  | ErrorBody "string option"
  | UserPtr "user option"
  | UsersMap users "string option"
  | Other "error + string"

text \<open>
  \<^verbatim>\<open>json.Marshal\<close> on these values: nil and a nil pointer are \<^verbatim>\<open>null\<close>; the field of
  \<^verbatim>\<open>ErrorBody\<close> is tagged \<^verbatim>\<open>omitempty\<close>; the keys of a map are written in sorted order.
\<close>

fun Marshal :: "json \<Rightarrow> body \<Rightarrow> error + string" where
  \<open>Marshal j nil = Inr ''null''\<close>
| \<open>Marshal j (ErrorBody None) = Inr ''{}''\<close>
| \<open>Marshal j (ErrorBody (Some m)) = Inr (''{"error":'' @ marshal_string j m @ ''}'')\<close>
| \<open>Marshal j (UserPtr None) = Inr ''null''\<close>
| \<open>Marshal j (UserPtr (Some u)) = Inr (marshal_User j u)\<close>
| \<open>Marshal j (UsersMap us None) = Inr (''{"users":'' @ marshal_users j us @ ''}'')\<close>
| \<open>Marshal j (UsersMap us (Some k)) =
     Inr (''{"lastEvaluatedKey":'' @ marshal_string j k @ '',"users":'' @ marshal_users j us @ ''}'')\<close>
| \<open>Marshal j (Other r) = r\<close>

text \<open>\<^verbatim>\<open>apiResponse\<close> returns the response and a Go error.\<close>

definition apiResponse :: "json \<Rightarrow> int \<Rightarrow> body \<Rightarrow> response \<times> error option" where
  "apiResponse j status b =
     (let resp = \<lparr>StatusCode = status,
                  Headers = [''Content-Type'' \<mapsto> ''application/json''],
                  Body = ''''\<rparr>
      in case Marshal j b of
           Inl err \<Rightarrow>
             (let errorJson =
                    (case Marshal j (ErrorBody (Some ''Failed to marshal response body'')) of
                       Inl e \<Rightarrow> '''' | Inr s \<Rightarrow> s)
              in (resp\<lparr>Body := errorJson, StatusCode := 500\<rparr>, None))
         | Inr stringBody \<Rightarrow> (resp\<lparr>Body := stringBody\<rparr>, None))"

definition UnhandledMethod :: "json \<Rightarrow> response \<times> error option" where
  "UnhandledMethod j = apiResponse j 405 (ErrorBody (Some ''Method Not Allowed''))"

section \<open>Request handler (package handlers, cmd/main.go)\<close>

text \<open>
  \<^verbatim>\<open>strconv.Atoi\<close>, \<open>None\<close> when it returns an error: an optional sign, then one or
  more decimal digits and nothing else, the value within the 64 bits of \<^verbatim>\<open>int\<close> on
  the platforms the function is built for.
\<close>

definition digit :: "char \<Rightarrow> bool" where
  "digit c \<longleftrightarrow> c \<in> set ''0123456789''"

definition digits_value :: "string \<Rightarrow> int" where
  "digits_value ds = foldl (\<lambda>n c. 10 * n + (int (of_char c) - 48)) 0 ds"

fun Atoi :: "string \<Rightarrow> int option" where
  "Atoi [] = None"
| "Atoi (c # cs) =
     (let neg = (c = CHR ''-'');
          ds = (if c = CHR ''-'' \<or> c = CHR ''+'' then cs else c # cs)
      in if ds = [] \<or> \<not> list_all digit ds then None
         else let n = (if neg then - digits_value ds else digits_value ds)
              in if n < - (2 ^ 63) \<or> 2 ^ 63 - 1 < n then None else Some n)"

record 'w UserHandler =
  userRepo :: "'w UserRepository"

definition NewUserHandler :: "'w UserRepository \<Rightarrow> 'w UserHandler" where
  "NewUserHandler r = \<lparr>userRepo = r\<rparr>"

text \<open>The limit \<^verbatim>\<open>GetUser\<close> asks \<^verbatim>\<open>FetchUsers\<close> for, from the \<^verbatim>\<open>limit\<close> parameter.\<close>

definition page_limit :: "string \<Rightarrow> int" where
  "page_limit limitStr =
     (let limit = 10
      in if limitStr \<noteq> '''' then
           (case Atoi limitStr of
              Some l \<Rightarrow> if l > 0 then l else limit
            | None \<Rightarrow> limit)
         else limit)"

definition handlers_GetUser ::
  "json \<Rightarrow> 'w UserHandler \<Rightarrow> request \<Rightarrow> 'w \<Rightarrow> (response \<times> error option) \<times> 'w" where
  "handlers_GetUser j h req w =
     (let email = param (QueryStringParameters req) ''email''
      in if email \<noteq> '''' then
           (case FetchUser (userRepo h) email w of
              (Inl err, w') \<Rightarrow> (apiResponse j 400 (ErrorBody (Some err)), w')
            | (Inr None, w') \<Rightarrow> (apiResponse j 404 (ErrorBody (Some ''User not found'')), w')
            | (Inr (Some u), w') \<Rightarrow> (apiResponse j 200 (UserPtr (Some u)), w'))
         else
           (let limitStr = param (QueryStringParameters req) ''limit'';
                lastEvaluatedKey = param (QueryStringParameters req) ''lastEvaluatedKey'';
                limit = page_limit limitStr
            in case FetchUsers (userRepo h) limit lastEvaluatedKey w of
                 (Inl err, w') \<Rightarrow> (apiResponse j 400 (ErrorBody (Some err)), w')
               | (Inr (us, newLastEvaluatedKey), w') \<Rightarrow>
                   (apiResponse j 200
                      (UsersMap us
                         (if newLastEvaluatedKey \<noteq> '''' then Some newLastEvaluatedKey
                          else None)), w')))"

definition handlers_CreateUser ::
  "json \<Rightarrow> 'w UserHandler \<Rightarrow> request \<Rightarrow> 'w \<Rightarrow> (response \<times> error option) \<times> 'w" where
  "handlers_CreateUser j h req w =
     (case UnmarshalUser j (RequestBody req) of
        Inl err \<Rightarrow> (apiResponse j 400 (ErrorBody (Some ''Invalid request body'')), w)
      | Inr u \<Rightarrow>
          (case ValidateUser u of
             Some err \<Rightarrow> (apiResponse j 400 (ErrorBody (Some err)), w)
           | None \<Rightarrow>
               (case CreateUser (userRepo h) u w of
                  (Inl err, w') \<Rightarrow> (apiResponse j 400 (ErrorBody (Some err)), w')
                | (Inr createdUser, w') \<Rightarrow> (apiResponse j 201 (UserPtr createdUser), w'))))"

definition handlers_UpdateUser ::
  "json \<Rightarrow> 'w UserHandler \<Rightarrow> request \<Rightarrow> 'w \<Rightarrow> (response \<times> error option) \<times> 'w" where
  "handlers_UpdateUser j h req w =
     (case UnmarshalUser j (RequestBody req) of
        Inl err \<Rightarrow> (apiResponse j 400 (ErrorBody (Some ''Invalid request body'')), w)
      | Inr u \<Rightarrow>
          if Email u = '''' then
            (apiResponse j 400 (ErrorBody (Some ''Email is required for user update'')), w)
          else
            (case ValidateUser u of
               Some err \<Rightarrow> (apiResponse j 400 (ErrorBody (Some err)), w)
             | None \<Rightarrow>
                 (case UpdateUser (userRepo h) u w of
                    (Inl err, w') \<Rightarrow>
                      if err = ErrorUserDoesNotExist then
                        (apiResponse j 404 (ErrorBody (Some ''User not found for update'')), w')
                      else (apiResponse j 400 (ErrorBody (Some err)), w')
                  | (Inr updatedUser, w') \<Rightarrow> (apiResponse j 200 (UserPtr updatedUser), w'))))"

definition handlers_DeleteUser ::
  "json \<Rightarrow> 'w UserHandler \<Rightarrow> request \<Rightarrow> 'w \<Rightarrow> (response \<times> error option) \<times> 'w" where
  "handlers_DeleteUser j h req w =
     (let email = param (QueryStringParameters req) ''email''
      in if email = '''' then
           (apiResponse j 400
              (ErrorBody (Some ''Email query parameter is required for deletion'')), w)
         else
           (case DeleteUser (userRepo h) email w of
              (Some err, w') \<Rightarrow>
                if err = ErrorUserDoesNotExist then
                  (apiResponse j 404 (ErrorBody (Some ''User not found for deletion'')), w')
                else (apiResponse j 400 (ErrorBody (Some err)), w')
            | (None, w') \<Rightarrow> (apiResponse j 204 nil, w')))"

text \<open>\<^verbatim>\<open>handler\<close> of cmd/main.go, on the handler that \<^verbatim>\<open>init\<close> has built.\<close>

definition handler ::
  "json \<Rightarrow> 'w UserHandler \<Rightarrow> request \<Rightarrow> 'w \<Rightarrow> (response \<times> error option) \<times> 'w" where
  "handler j userHandler req w =
     (if HTTPMethod req = ''GET'' then handlers_GetUser j userHandler req w
      else if HTTPMethod req = ''POST'' then handlers_CreateUser j userHandler req w
      else if HTTPMethod req = ''PUT'' then handlers_UpdateUser j userHandler req w
      else if HTTPMethod req = ''DELETE'' then handlers_DeleteUser j userHandler req w
      else (UnhandledMethod j, w))"

section \<open>Examples\<close>

text \<open>
  Concrete values for the examples that follow the theorems: a user, a client on the
  table whose scan returns the whole table as one page, a JSON library that decodes
  one request body, the record of \<open>alice\<close>, and three stores: an empty one, one
  that holds \<open>alice\<close>, and one that holds \<open>alice\<close> and whose next call times out.
\<close>

definition alice :: user where
  "alice = \<lparr>Email = ''a@b.com'', FirstName = ''A'', LastName = ''B''\<rparr>"

definition scan_all :: "int \<Rightarrow> string option \<Rightarrow> store \<Rightarrow> (error + user list \<times> string option) \<times> store" where
  "scan_all limit start w = (Inr (table w, None), w)"

definition demo_sdk :: "(store, user, string) sdk" where
  "demo_sdk =
     \<lparr>GetItem = table_GetItem, PutItem = table_PutItem, DeleteItem = table_DeleteItem,
      Scan = scan_all, MarshalMap = Inr, UnmarshalMap = Inr,
      UnmarshalListOfMaps = Inr \<circ> Some, UnmarshalKey = Inr \<circ> Some, MarshalKey = Inr\<rparr>"

definition demo_decode :: "string \<Rightarrow> error + user" where
  \<open>demo_decode s =
     (if s = ''{"email":"a@b.com","firstName":"A","lastName":"B"}'' then Inr alice
      else Inl ''invalid character'')\<close>

definition demo_json :: json where
  "demo_json = \<lparr>encodeString = id, UnmarshalUser = demo_decode\<rparr>"

definition demo_handler :: "store UserHandler" where
  "demo_handler = NewUserHandler (NewDynamoDBUserRepository (on_table demo_sdk))"

definition empty_store :: store where
  "empty_store = \<lparr>table = [], faults = []\<rparr>"

definition alice_store :: store where
  "alice_store = \<lparr>table = [alice], faults = []\<rparr>"

definition failing_store :: store where
  "failing_store = \<lparr>table = [alice], faults = [Some ''timeout'']\<rparr>"

text \<open>Requests: a PUT of the record of \<open>alice\<close>, and a DELETE and three GETs by query.\<close>

definition put_alice :: request where
  \<open>put_alice =
     \<lparr>HTTPMethod = ''PUT'', QueryStringParameters = Map.empty,
      RequestBody = ''{"email":"a@b.com","firstName":"A","lastName":"B"}''\<rparr>\<close>

definition delete_alice :: request where
  "delete_alice =
     \<lparr>HTTPMethod = ''DELETE'', QueryStringParameters = [''email'' \<mapsto> ''a@b.com''],
      RequestBody = ''''\<rparr>"

definition get_alice :: request where
  "get_alice =
     \<lparr>HTTPMethod = ''GET'', QueryStringParameters = [''email'' \<mapsto> ''a@b.com''],
      RequestBody = ''''\<rparr>"

definition get_empty_email :: request where
  "get_empty_email =
     \<lparr>HTTPMethod = ''GET'', QueryStringParameters = [''email'' \<mapsto> ''''],
      RequestBody = ''''\<rparr>"

definition get_page :: request where
  "get_page =
     \<lparr>HTTPMethod = ''GET'', QueryStringParameters = [''limit'' \<mapsto> ''25''],
      RequestBody = ''''\<rparr>"

section \<open>The matcher decides the language of the pattern\<close>

lemma nil_in_conc: "[] \<in> conc A B \<longleftrightarrow> [] \<in> A \<and> [] \<in> B"
  by (auto simp: conc_def)

lemma nil_in_at_most: "[] \<in> at_most n A"
  by (cases n) simp_all

lemma nullable_lang: "nullable r \<longleftrightarrow> [] \<in> lang r"
  by (induction r) (auto simp: nil_in_conc nil_in_at_most star.star_nil)

lemma left_quot_conc:
  "left_quot c (conc A B) =
     conc (left_quot c A) B \<union> (if [] \<in> A then left_quot c B else {})"
  unfolding conc_def left_quot_def
  by (auto simp: Cons_eq_append_conv)

lemma conc_mono: "B \<subseteq> B' \<Longrightarrow> conc A B \<subseteq> conc A B'"
  by (auto simp: conc_def)

lemma at_most_mono: "at_most n A \<subseteq> at_most (Suc n) A"
proof (induction n)
  case 0
  show ?case by simp
next
  case (Suc n)
  from conc_mono [OF Suc.IH, of A] show ?case by auto
qed

lemma left_quot_Un: "left_quot c (A \<union> B) = left_quot c A \<union> left_quot c B"
  by (auto simp: left_quot_def)

lemma left_quot_nil: "left_quot c {[]} = {}"
  by (simp add: left_quot_def)

lemma left_quot_at_most_step:
  "left_quot c (at_most (Suc n) A) =
     conc (left_quot c A) (at_most n A) \<union> (if [] \<in> A then left_quot c (at_most n A) else {})"
  by (simp add: left_quot_Un left_quot_nil left_quot_conc del: Un_insert_left)

lemma left_quot_at_most:
  "left_quot c (at_most (Suc n) A) = conc (left_quot c A) (at_most n A)"
proof (induction n)
  case 0
  have "left_quot c (at_most 0 A) = {}" by (simp add: left_quot_nil)
  with left_quot_at_most_step [of c 0 A] show ?case by simp
next
  case (Suc n)
  have "left_quot c (at_most (Suc n) A) \<subseteq> conc (left_quot c A) (at_most (Suc n) A)"
    unfolding Suc.IH by (rule conc_mono [OF at_most_mono])
  with left_quot_at_most_step [of c "Suc n" A] show ?case by auto
qed

lemma star_cons_split:
  assumes "w \<in> star A" and "w = c # xs"
  shows "xs \<in> conc (left_quot c A) (star A)"
  using assms
proof (induction arbitrary: xs rule: star.induct)
  case star_nil
  then show ?case by simp
next
  case (star_app x ys)
  show ?case
  proof (cases x)
    case Nil
    with star_app show ?thesis by simp
  next
    case (Cons d x')
    with star_app.prems have "d = c" and xs: "xs = x' @ ys" by simp_all
    with Cons star_app.hyps(1) have "x' \<in> left_quot c A" by (simp add: left_quot_def)
    with star_app.hyps(2) xs show ?thesis by (auto simp: conc_def)
  qed
qed

lemma left_quot_star: "left_quot c (star A) = conc (left_quot c A) (star A)"
proof
  show "left_quot c (star A) \<subseteq> conc (left_quot c A) (star A)"
    using star_cons_split by (auto simp: left_quot_def)
next
  show "conc (left_quot c A) (star A) \<subseteq> left_quot c (star A)"
  proof
    fix w assume "w \<in> conc (left_quot c A) (star A)"
    then obtain x ys where w: "w = x @ ys" and x: "c # x \<in> A" and ys: "ys \<in> star A"
      by (auto simp: conc_def left_quot_def)
    from star.star_app [OF x ys] w show "w \<in> left_quot c (star A)"
      by (simp add: left_quot_def)
  qed
qed

lemma lang_deriv: "lang (deriv c r) = left_quot c (lang r)"
proof (induction r)
  case (Upto n r)
  then show ?case
    by (cases n) (simp_all add: left_quot_at_most left_quot_nil del: at_most.simps(2))
next
  case (Seq r s)
  then show ?case by (simp add: left_quot_conc nullable_lang)
qed (auto simp: left_quot_def left_quot_star [unfolded left_quot_def])

lemma foldl_deriv_lang: "nullable (foldl (\<lambda>q c. deriv c q) r s) \<longleftrightarrow> s \<in> lang r"
  by (induction s arbitrary: r) (simp_all add: nullable_lang lang_deriv left_quot_def)

lemma MatchString_lang: "MatchString r s \<longleftrightarrow> s \<in> lang r"
  by (simp add: MatchString_def foldl_deriv_lang)

text \<open>The strings of the email pattern are ASCII: their bytes are their characters.\<close>

lemma conc_chars:
  "w \<in> conc A B \<Longrightarrow> c \<in> set w \<Longrightarrow> (\<exists>v \<in> A. c \<in> set v) \<or> (\<exists>v \<in> B. c \<in> set v)"
  by (auto simp: conc_def)

lemma star_chars: "w \<in> star A \<Longrightarrow> c \<in> set w \<Longrightarrow> \<exists>v \<in> A. c \<in> set v"
  by (induction rule: star.induct) auto

lemma at_most_chars: "w \<in> at_most n A \<Longrightarrow> c \<in> set w \<Longrightarrow> \<exists>v \<in> A. c \<in> set v"
proof (induction n arbitrary: w)
  case 0
  then show ?case by simp
next
  case (Suc n)
  from Suc.prems have "w \<in> conc A (at_most n A)" by auto
  from conc_chars [OF this Suc.prems(2)] Suc.IH show ?case by blast
qed

lemma lang_atoms: "w \<in> lang r \<Longrightarrow> c \<in> set w \<Longrightarrow> c \<in> atoms r"
proof (induction r arbitrary: w)
  case (Seq r s)
  from Seq.prems have "w \<in> conc (lang r) (lang s)" by simp
  from conc_chars [OF this Seq.prems(2)] Seq.IH show ?case by auto
next
  case (Star r)
  from Star.prems have "w \<in> star (lang r)" by simp
  from star_chars [OF this Star.prems(2)] Star.IH show ?case by auto
next
  case (Upto n r)
  from Upto.prems have "w \<in> at_most n (lang r)" by simp
  from at_most_chars [OF this Upto.prems(2)] Upto.IH show ?case by auto
qed auto

lemma alnum_ascii: "alnum c \<Longrightarrow> (of_char c :: nat) < 128"
  by (auto simp: alnum_def)

lemma rxEmail_ascii:
  assumes "e \<in> lang rxEmail" and "c \<in> set e"
  shows "(of_char c :: nat) < 128"
proof -
  from lang_atoms [OF assms] have "c \<in> atoms rxEmail" .
  then show ?thesis
    by (auto simp: rxEmail_def label_def Plus_def Opt_def Lit_def local_char_def alnum_hyphen_def
        dest: alnum_ascii)
qed

section \<open>Validation\<close>

lemma IsEmailValid_iff:
  "IsEmailValid e \<longleftrightarrow> 3 \<le> length e \<and> length e \<le> 254 \<and> e \<in> lang rxEmail"
  by (auto simp: IsEmailValid_def MatchString_lang)

text \<open>
  C1. \<open>ValidateUser\<close> is a function of the record alone, defined on every record, and
  its result is that of the four rules taken in their order, the first that fails
  giving the message: an empty email; an email that is shorter than 3 bytes, longer
  than 254 bytes or not a string of the language of the email pattern; an empty
  first name; an empty last name. A record that passes the four rules gets no error.
  (The strings of the pattern being ASCII, the length of an email that passes is the
  same in bytes and in characters.)
\<close>

theorem ValidateUser_rules:
  "ValidateUser u =
     (if Email u = '''' then Some ''email is required''
      else if \<not> (3 \<le> length (Email u) \<and> length (Email u) \<le> 254 \<and> Email u \<in> lang rxEmail)
        then Some ''invalid email format''
      else if FirstName u = '''' then Some ''first name is required''
      else if LastName u = '''' then Some ''last name is required''
      else None)"
  by (simp add: ValidateUser_def IsEmailValid_iff)

text \<open>
  The rules at work on the record of \<open>alice\<close>: as it is, without an email, with an
  email that is no address (and no first name), without both names, without a last
  name.
\<close>

theorem ValidateUser_rules_witness:
  "ValidateUser alice = None \<and>
   ValidateUser (alice\<lparr>Email := ''''\<rparr>) = Some ''email is required'' \<and>
   ValidateUser (alice\<lparr>Email := ''a@'', FirstName := ''''\<rparr>) = Some ''invalid email format'' \<and>
   ValidateUser (alice\<lparr>FirstName := '''', LastName := ''''\<rparr>) = Some ''first name is required'' \<and>
   ValidateUser (alice\<lparr>LastName := ''''\<rparr>) = Some ''last name is required''"
proof -
  have "MatchString rxEmail ''a@b.com''" by code_simp
  then have m: "''a@b.com'' \<in> lang rxEmail" by (simp add: MatchString_lang)
  show ?thesis
    using m ValidateUser_rules [of alice]
      ValidateUser_rules [of "alice\<lparr>Email := ''''\<rparr>"]
      ValidateUser_rules [of "alice\<lparr>Email := ''a@'', FirstName := ''''\<rparr>"]
      ValidateUser_rules [of "alice\<lparr>FirstName := '''', LastName := ''''\<rparr>"]
      ValidateUser_rules [of "alice\<lparr>LastName := ''''\<rparr>"]
    by (simp add: alice_def)
qed

section \<open>The repository on the table\<close>

lemma table_next_fault [simp]: "table (snd (next_fault w)) = table w"
  by (simp add: next_fault_def split: list.splits)

lemma on_table_simps [simp]:
  "GetItem (on_table c) = table_GetItem"
  "PutItem (on_table c) = table_PutItem"
  "DeleteItem (on_table c) = table_DeleteItem"
  "MarshalMap (on_table c) = Inr"
  "UnmarshalMap (on_table c) = Inr"
  by (simp_all add: on_table_def)

lemma table_GetItem_eq:
  "table_GetItem key w =
     (case fst (next_fault w) of
        Some err \<Rightarrow> Inl err
      | None \<Rightarrow> Inr (find (\<lambda>x. Email x = key) (table w)), snd (next_fault w))"
  by (cases "next_fault w") (auto simp: table_GetItem_def split: option.splits dest: arg_cong [where f = "\<lambda>p. table (snd p)"])

lemma FetchUser_on_table:
  "repository_FetchUser (on_table c) email w =
     (case fst (next_fault w) of
        Some err \<Rightarrow> Inl (Errorf ErrorFailedToFetchRecord err)
      | None \<Rightarrow> Inr (find (\<lambda>x. Email x = email) (table w)), snd (next_fault w))"
  by (simp add: repository_FetchUser_def table_GetItem_eq split: option.splits)

lemma Errorf_not_DoesNotExist:
  "Errorf ErrorFailedToFetchRecord e \<noteq> ErrorUserDoesNotExist"
  "Errorf ErrorFailedToUnmarshalRecord e \<noteq> ErrorUserDoesNotExist"
  "Errorf ErrorCouldNotMarshalItem e \<noteq> ErrorUserDoesNotExist"
  "Errorf ErrorCouldNotDynamoPutItem e \<noteq> ErrorUserDoesNotExist"
  "Errorf ErrorCouldNotDeleteItem e \<noteq> ErrorUserDoesNotExist"
  by (simp_all add: Errorf_def ErrorFailedToFetchRecord_def ErrorUserDoesNotExist_def
      ErrorFailedToUnmarshalRecord_def ErrorCouldNotMarshalItem_def
      ErrorCouldNotDynamoPutItem_def ErrorCouldNotDeleteItem_def)

lemma Errorf_fetch_not_unmarshal:
  "Errorf ErrorFailedToUnmarshalRecord e \<noteq> Errorf ErrorFailedToFetchRecord e'"
  by (simp add: Errorf_def ErrorFailedToFetchRecord_def ErrorFailedToUnmarshalRecord_def)

lemma table_PutItem_eq:
  "table_PutItem it w =
     (case fst (next_fault w) of
        Some err \<Rightarrow> (Some err, snd (next_fault w))
      | None \<Rightarrow> (None, (snd (next_fault w))\<lparr>table := put_item it (table w)\<rparr>))"
  by (cases "next_fault w") (auto simp: table_PutItem_def split: option.splits dest: arg_cong [where f = "\<lambda>p. table (snd p)"])

lemma table_DeleteItem_eq:
  "table_DeleteItem key w =
     (case fst (next_fault w) of
        Some err \<Rightarrow> (Some err, snd (next_fault w))
      | None \<Rightarrow> (None, (snd (next_fault w))\<lparr>table := filter (\<lambda>x. Email x \<noteq> key) (table w)\<rparr>))"
  by (cases "next_fault w") (auto simp: table_DeleteItem_def split: option.splits dest: arg_cong [where f = "\<lambda>p. table (snd p)"])

lemma CreateUser_on_table:
  "repository_CreateUser (on_table c) r w =
     (let w1 = snd (next_fault w) in
      case fst (next_fault w) of
        Some err \<Rightarrow> (Inl (Errorf ErrorFailedToFetchRecord err), w1)
      | None \<Rightarrow>
          (case find (\<lambda>x. Email x = Email r) (table w) of
             Some x \<Rightarrow> (Inl ErrorUserAlreadyExists, w1)
           | None \<Rightarrow>
               (case fst (next_fault w1) of
                  Some err \<Rightarrow> (Inl (Errorf ErrorCouldNotDynamoPutItem err), snd (next_fault w1))
                | None \<Rightarrow> (Inr (Some r), (snd (next_fault w1))\<lparr>table := put_item r (table w)\<rparr>))))"
  by (simp add: repository_CreateUser_def FetchUser_on_table table_PutItem_eq Let_def
      split: option.splits)

lemma UpdateUser_on_table:
  "repository_UpdateUser (on_table c) r w =
     (let w1 = snd (next_fault w) in
      case fst (next_fault w) of
        Some err \<Rightarrow> (Inl (Errorf ErrorFailedToFetchRecord err), w1)
      | None \<Rightarrow>
          (case find (\<lambda>x. Email x = Email r) (table w) of
             None \<Rightarrow> (Inl ErrorUserDoesNotExist, w1)
           | Some x \<Rightarrow>
               (case fst (next_fault w1) of
                  Some err \<Rightarrow> (Inl (Errorf ErrorCouldNotDynamoPutItem err), snd (next_fault w1))
                | None \<Rightarrow> (Inr (Some r), (snd (next_fault w1))\<lparr>table := put_item r (table w)\<rparr>))))"
  by (simp add: repository_UpdateUser_def FetchUser_on_table table_PutItem_eq Let_def
      split: option.splits)

lemma DeleteUser_on_table:
  "repository_DeleteUser (on_table c) email w =
     (let w1 = snd (next_fault w) in
      case fst (next_fault w) of
        Some err \<Rightarrow> (Some (Errorf ErrorFailedToFetchRecord err), w1)
      | None \<Rightarrow>
          (case find (\<lambda>x. Email x = email) (table w) of
             None \<Rightarrow> (Some ErrorUserDoesNotExist, w1)
           | Some x \<Rightarrow>
               (case fst (next_fault w1) of
                  Some err \<Rightarrow> (Some (Errorf ErrorCouldNotDeleteItem err), snd (next_fault w1))
                | None \<Rightarrow>
                    (None, (snd (next_fault w1))\<lparr>table := filter (\<lambda>x. Email x \<noteq> email) (table w)\<rparr>))))"
  by (simp add: repository_DeleteUser_def FetchUser_on_table table_DeleteItem_eq Let_def
      split: option.splits)


lemma find_put_item: "find (\<lambda>x. Email x = Email u) (put_item u xs) = Some u"
  by (induction xs) simp_all

lemma map_Email_put_item:
  "map Email (put_item u xs) =
     (if Email u \<in> set (map Email xs) then map Email xs else map Email xs @ [Email u])"
  by (induction xs) auto

lemma distinct_put_item:
  "distinct (map Email xs) \<Longrightarrow> distinct (map Email (put_item u xs))"
  by (simp add: map_Email_put_item)

lemma distinct_delete:
  "distinct (map Email xs) \<Longrightarrow> distinct (map Email (filter (\<lambda>x. Email x \<noteq> k) xs))"
  by (simp add: distinct_map_filter)

lemma unique_run_operation: "unique_emails w \<Longrightarrow> unique_emails (run_operation c op w)"
  by (cases op)
     (auto simp: unique_emails_def FetchUser_on_table CreateUser_on_table UpdateUser_on_table
        DeleteUser_on_table Let_def distinct_put_item distinct_delete split: option.splits)

lemma unique_run_operations: "unique_emails w \<Longrightarrow> unique_emails (run_operations c ops w)"
  unfolding run_operations_def
  by (induction ops arbitrary: w) (simp_all add: unique_run_operation)

lemma unique_emails_key:
  "unique_emails w \<Longrightarrow> x \<in> set (table w) \<Longrightarrow> y \<in> set (table w) \<Longrightarrow> Email x = Email y \<Longrightarrow> x = y"
  by (auto simp: unique_emails_def distinct_map dest: inj_onD)

text \<open>
  C4. When the client reports no item for the key, \<open>FetchUser\<close> returns a nil record
  and a nil error. It returns the error tagged \<open>ErrorFailedToFetchRecord\<close> when, and
  only when, the call on the client fails; the call is all it does to the state.
  On the table: for a key the table holds no record under, and a call that goes
  through, the result is the nil record without an error, and the table is as before.
\<close>

theorem FetchUser_absent_is_no_error:
  "(fst (GetItem c email w) = Inr None \<longrightarrow> fst (repository_FetchUser c email w) = Inr None) \<and>
   ((\<exists>err. fst (repository_FetchUser c email w) = Inl (Errorf ErrorFailedToFetchRecord err))
      \<longleftrightarrow> (\<exists>err. fst (GetItem c email w) = Inl err)) \<and>
   snd (repository_FetchUser c email w) = snd (GetItem c email w) \<and>
   (stored s email = None \<and> goes_through s \<longrightarrow>
      fst (repository_FetchUser (on_table c') email s) = Inr None \<and>
      table (snd (repository_FetchUser (on_table c') email s)) = table s)"
proof -
  have "fst (GetItem c email w) = Inr None \<longrightarrow> fst (repository_FetchUser c email w) = Inr None"
    by (cases "GetItem c email w") (auto simp: repository_FetchUser_def)
  moreover have "(\<exists>err. fst (repository_FetchUser c email w) = Inl (Errorf ErrorFailedToFetchRecord err))
      \<longleftrightarrow> (\<exists>err. fst (GetItem c email w) = Inl err)"
    by (cases "GetItem c email w")
       (auto simp: repository_FetchUser_def Errorf_fetch_not_unmarshal
          split: sum.splits option.splits)
  moreover have "snd (repository_FetchUser c email w) = snd (GetItem c email w)"
    by (cases "GetItem c email w")
       (auto simp: repository_FetchUser_def split: sum.splits option.splits)
  moreover have "stored s email = None \<and> goes_through s \<longrightarrow>
      fst (repository_FetchUser (on_table c') email s) = Inr None \<and>
      table (snd (repository_FetchUser (on_table c') email s)) = table s"
    by (simp add: FetchUser_on_table)
  ultimately show ?thesis by blast
qed

text \<open>
  A key that the empty store does not hold is fetched as the nil record, and the store
  stays empty; on the store whose next call times out the fetch fails with the tagged
  error.
\<close>

theorem FetchUser_absent_is_no_error_witness:
  "stored empty_store ''missing@x.com'' = None \<and> goes_through empty_store \<and>
   fst (GetItem (on_table demo_sdk) ''missing@x.com'' empty_store) = Inr None \<and>
   repository_FetchUser (on_table demo_sdk) ''missing@x.com'' empty_store =
     (Inr None, empty_store) \<and>
   fst (GetItem (on_table demo_sdk) ''a@b.com'' failing_store) = Inl ''timeout'' \<and>
   fst (repository_FetchUser (on_table demo_sdk) ''a@b.com'' failing_store) =
     Inl ''failed to fetch record from DynamoDB: timeout''"
proof -
  have 1: "stored empty_store ''missing@x.com'' = None" "goes_through empty_store"
    "snd (next_fault empty_store) = empty_store"
    "fst (next_fault failing_store) = Some ''timeout''"
    by (simp_all add: empty_store_def failing_store_def next_fault_def)
  then have 2: "GetItem (on_table demo_sdk) ''missing@x.com'' empty_store = (Inr None, empty_store)"
    "fst (GetItem (on_table demo_sdk) ''a@b.com'' failing_store) = Inl ''timeout''"
    by (simp_all add: table_GetItem_eq)
  show ?thesis
    using 1 2
      FetchUser_absent_is_no_error [where c = "on_table demo_sdk" and email = "''missing@x.com''"
        and w = empty_store and s = empty_store and c' = demo_sdk]
      FetchUser_on_table [of demo_sdk "''a@b.com''" failing_store]
    by (simp add: prod_eq_iff Errorf_def ErrorFailedToFetchRecord_def)
qed


lemma create_existing:
  assumes "stored s (Email u) \<noteq> None"
  shows "table (snd (repository_CreateUser (on_table c) u s)) = table s"
    and "goes_through s \<Longrightarrow> fst (repository_CreateUser (on_table c) u s) = Inl ErrorUserAlreadyExists"
    and "fst (next_fault s) = Some err \<Longrightarrow>
           fst (repository_CreateUser (on_table c) u s) = Inl (Errorf ErrorFailedToFetchRecord err)"
  using assms by (auto simp: CreateUser_on_table Let_def split: option.splits)

lemma create_stores:
  assumes "fst (repository_CreateUser (on_table c) u s) = Inr p"
  shows "stored (snd (repository_CreateUser (on_table c) u s)) (Email u) = Some u"
  using assms by (auto simp: CreateUser_on_table Let_def find_put_item split: option.splits)

text \<open>
  C2. \<open>CreateUser\<close> begins with the read of the key. On a store that holds a record
  under the email of \<open>r\<close>, it fails and leaves the table as it is: with
  \<open>ErrorUserAlreadyExists\<close> when the read goes through, and with the error of the
  read when the read itself fails. So after a \<open>CreateUser\<close> that succeeded the store
  holds the record, and a second \<open>CreateUser\<close> with the same email leaves the table
  as it is and, its read going through, fails with \<open>ErrorUserAlreadyExists\<close>.
\<close>

theorem CreateUser_existing:
  "(stored w (Email r) \<noteq> None \<longrightarrow>
      table (snd (repository_CreateUser (on_table c) r w)) = table w \<and>
      (goes_through w \<longrightarrow>
         fst (repository_CreateUser (on_table c) r w) = Inl ErrorUserAlreadyExists) \<and>
      (\<forall>err. fst (next_fault w) = Some err \<longrightarrow>
         fst (repository_CreateUser (on_table c) r w) =
           Inl (Errorf ErrorFailedToFetchRecord err))) \<and>
   (\<forall>p. fst (repository_CreateUser (on_table c) r w) = Inr p \<and> Email r' = Email r \<longrightarrow>
      stored (snd (repository_CreateUser (on_table c) r w)) (Email r') = Some r \<and>
      table (snd (repository_CreateUser (on_table c) r'
                    (snd (repository_CreateUser (on_table c) r w)))) =
        table (snd (repository_CreateUser (on_table c) r w)) \<and>
      (goes_through (snd (repository_CreateUser (on_table c) r w)) \<longrightarrow>
         fst (repository_CreateUser (on_table c) r'
                (snd (repository_CreateUser (on_table c) r w))) = Inl ErrorUserAlreadyExists))"
proof (intro conjI impI allI)
  fix p
  assume a: "fst (repository_CreateUser (on_table c) r w) = Inr p \<and> Email r' = Email r"
  let ?w1 = "snd (repository_CreateUser (on_table c) r w)"
  from a create_stores [of c r w p] show f: "stored ?w1 (Email r') = Some r" by simp
  then have ne: "stored ?w1 (Email r') \<noteq> None" by simp
  from create_existing(1) [OF ne]
  show "table (snd (repository_CreateUser (on_table c) r' ?w1)) = table ?w1" .
  assume "goes_through ?w1"
  with create_existing(2) [OF ne]
  show "fst (repository_CreateUser (on_table c) r' ?w1) = Inl ErrorUserAlreadyExists" .
qed (simp_all add: create_existing)

text \<open>
  The store that holds \<open>alice\<close> refuses her record; while it is unreachable the
  error is that of the read; on the empty store the first create succeeds and the
  second is refused.
\<close>

theorem CreateUser_existing_witness:
  "stored alice_store (Email alice) = Some alice \<and> goes_through alice_store \<and>
   fst (repository_CreateUser (on_table demo_sdk) alice alice_store) = Inl ErrorUserAlreadyExists \<and>
   table (snd (repository_CreateUser (on_table demo_sdk) alice alice_store)) = [alice] \<and>
   fst (next_fault failing_store) = Some ''timeout'' \<and>
   fst (repository_CreateUser (on_table demo_sdk) alice failing_store) =
     Inl ''failed to fetch record from DynamoDB: timeout'' \<and>
   fst (repository_CreateUser (on_table demo_sdk) alice empty_store) = Inr (Some alice) \<and>
   fst (repository_CreateUser (on_table demo_sdk) alice
          (snd (repository_CreateUser (on_table demo_sdk) alice empty_store))) =
     Inl ''user already exists''"
proof -
  have 1: "stored alice_store (Email alice) = Some alice" "goes_through alice_store"
    "fst (next_fault failing_store) = Some ''timeout''" "stored failing_store (Email alice) = Some alice"
    by (simp_all add: alice_store_def failing_store_def next_fault_def)
  have 2: "fst (repository_CreateUser (on_table demo_sdk) alice empty_store) = Inr (Some alice)"
    "goes_through (snd (repository_CreateUser (on_table demo_sdk) alice empty_store))"
    by (simp_all add: CreateUser_on_table empty_store_def next_fault_def)
  show ?thesis
    using 1 2 CreateUser_existing [where w = alice_store and r = alice and c = demo_sdk and r' = alice]
      CreateUser_existing [where w = failing_store and r = alice and c = demo_sdk and r' = alice]
      CreateUser_existing [where w = empty_store and r = alice and c = demo_sdk and r' = alice]
    by (simp add: alice_store_def failing_store_def Errorf_def ErrorFailedToFetchRecord_def
        ErrorUserAlreadyExists_def)
qed

lemma FetchUser_error_tagged:
  "fst (repository_FetchUser c email w) = Inl e \<Longrightarrow> e \<noteq> ErrorUserDoesNotExist"
  by (cases "GetItem c email w")
     (auto simp: repository_FetchUser_def Errorf_not_DoesNotExist split: sum.splits option.splits)

lemma UpdateUser_NotFound_iff:
  "fst (repository_UpdateUser c u w) = Inl ErrorUserDoesNotExist \<longleftrightarrow>
     fst (repository_FetchUser c (Email u) w) = Inr None"
  using FetchUser_error_tagged [of c "Email u" w]
  by (cases "repository_FetchUser c (Email u) w")
     (auto simp: repository_UpdateUser_def Errorf_not_DoesNotExist
        split: sum.splits option.splits prod.splits)

lemma DeleteUser_NotFound_iff:
  "fst (repository_DeleteUser c email w) = Some ErrorUserDoesNotExist \<longleftrightarrow>
     fst (repository_FetchUser c email w) = Inr None"
  using FetchUser_error_tagged [of c email w]
  by (cases "repository_FetchUser c email w")
     (auto simp: repository_DeleteUser_def Errorf_not_DoesNotExist
        split: sum.splits option.splits prod.splits)

lemma update_missing:
  assumes "stored s (Email u) = None"
  shows "table (snd (repository_UpdateUser (on_table c) u s)) = table s"
    and "goes_through s \<Longrightarrow> fst (repository_UpdateUser (on_table c) u s) = Inl ErrorUserDoesNotExist"
  using assms by (auto simp: UpdateUser_on_table Let_def split: option.splits)

lemma delete_missing:
  assumes "stored s email = None"
  shows "table (snd (repository_DeleteUser (on_table c) email s)) = table s"
    and "goes_through s \<Longrightarrow> fst (repository_DeleteUser (on_table c) email s) = Some ErrorUserDoesNotExist"
  using assms by (auto simp: DeleteUser_on_table Let_def split: option.splits)

lemma StatusCode_ErrorBody [simp]:
  "StatusCode (fst (apiResponse j status (ErrorBody m))) = status"
  by (cases m) (simp_all add: apiResponse_def)

lemma handlers_UpdateUser_failure:
  assumes "UnmarshalUser j (RequestBody req) = Inr u" and "ValidateUser u = None"
    and "fst (UpdateUser (userRepo h) u w) = Inl err"
  shows "StatusCode (fst (fst (handlers_UpdateUser j h req w))) =
           (if err = ErrorUserDoesNotExist then 404 else 400)"
proof -
  from assms(2) have "Email u \<noteq> ''''"
    by (auto simp: ValidateUser_def split: if_splits)
  with assms show ?thesis
    by (cases "UpdateUser (userRepo h) u w") (simp add: handlers_UpdateUser_def)
qed

lemma handlers_DeleteUser_failure:
  assumes "param (QueryStringParameters req) ''email'' \<noteq> ''''"
    and "fst (DeleteUser (userRepo h) (param (QueryStringParameters req) ''email'') w) = Some err"
  shows "StatusCode (fst (fst (handlers_DeleteUser j h req w))) =
           (if err = ErrorUserDoesNotExist then 404 else 400)"
  using assms
  by (cases "DeleteUser (userRepo h) (param (QueryStringParameters req) ''email'') w")
     (simp add: handlers_DeleteUser_def Let_def)


lemma ValidateUser_alice: "ValidateUser alice = None"
  by code_simp

lemma demo_handler_simps [simp]:
  "UpdateUser (userRepo demo_handler) = repository_UpdateUser (on_table demo_sdk)"
  "DeleteUser (userRepo demo_handler) = repository_DeleteUser (on_table demo_sdk)"
  "CreateUser (userRepo demo_handler) = repository_CreateUser (on_table demo_sdk)"
  "FetchUser (userRepo demo_handler) = repository_FetchUser (on_table demo_sdk)"
  "FetchUsers (userRepo demo_handler) = repository_FetchUsers (on_table demo_sdk)"
  by (simp_all add: demo_handler_def NewUserHandler_def NewDynamoDBUserRepository_def)

lemma demo_json_put_alice: "UnmarshalUser demo_json (RequestBody put_alice) = Inr alice"
  by (simp add: demo_json_def demo_decode_def put_alice_def)

lemma param_delete_alice: "param (QueryStringParameters delete_alice) ''email'' = ''a@b.com''"
  by (simp add: delete_alice_def param_def)

lemma next_fault_examples:
  "next_fault empty_store = (None, empty_store)"
  "next_fault alice_store = (None, alice_store)"
  "next_fault failing_store = (Some ''timeout'', alice_store)"
  by (simp_all add: next_fault_def empty_store_def alice_store_def failing_store_def)

lemma table_examples:
  "table empty_store = []" "table alice_store = [alice]" "table failing_store = [alice]"
  by (simp_all add: empty_store_def alice_store_def failing_store_def)


text \<open>
  C3. On a store that holds no record under the email, \<open>UpdateUser\<close> and \<open>DeleteUser\<close>
  leave the table as it is and, their read going through, fail with
  \<open>ErrorUserDoesNotExist\<close>. Whatever the client, the repository returns this error
  exactly when its read finds no record: no other failure of it carries this message.
  The handlers answer a failure of the repository's \<open>UpdateUser\<close> or \<open>DeleteUser\<close>
  with 404 when its message is \<open>ErrorUserDoesNotExist\<close> and with 400 otherwise.
\<close>

theorem NotFound_on_missing:
  "(stored s (Email u) = None \<longrightarrow>
      table (snd (repository_UpdateUser (on_table c) u s)) = table s \<and>
      (goes_through s \<longrightarrow>
         fst (repository_UpdateUser (on_table c) u s) = Inl ErrorUserDoesNotExist)) \<and>
   (stored s email = None \<longrightarrow>
      table (snd (repository_DeleteUser (on_table c) email s)) = table s \<and>
      (goes_through s \<longrightarrow>
         fst (repository_DeleteUser (on_table c) email s) = Some ErrorUserDoesNotExist)) \<and>
   (fst (repository_UpdateUser d u w) = Inl ErrorUserDoesNotExist \<longleftrightarrow>
      fst (repository_FetchUser d (Email u) w) = Inr None) \<and>
   (fst (repository_DeleteUser d email w) = Some ErrorUserDoesNotExist \<longleftrightarrow>
      fst (repository_FetchUser d email w) = Inr None) \<and>
   (UnmarshalUser j (RequestBody req) = Inr u \<and> ValidateUser u = None \<and>
    fst (UpdateUser (userRepo h) u w') = Inl err \<longrightarrow>
      StatusCode (fst (fst (handlers_UpdateUser j h req w'))) =
        (if err = ErrorUserDoesNotExist then 404 else 400)) \<and>
   (param (QueryStringParameters req) ''email'' \<noteq> '''' \<and>
    fst (DeleteUser (userRepo h) (param (QueryStringParameters req) ''email'') w') = Some err \<longrightarrow>
      StatusCode (fst (fst (handlers_DeleteUser j h req w'))) =
        (if err = ErrorUserDoesNotExist then 404 else 400))"
  using update_missing [where s = s and u = u and c = c]
    delete_missing [where s = s and email = email and c = c]
    UpdateUser_NotFound_iff [of d u w] DeleteUser_NotFound_iff [of d email w]
    handlers_UpdateUser_failure [where j = j and req = req and u = u and h = h and w = w'
      and err = err]
    handlers_DeleteUser_failure [where j = j and req = req and h = h and w = w' and err = err]
  by blast

text \<open>
  On the empty store the update and the delete of \<open>alice\<close> are refused, the table
  stays empty, and the handlers answer 404; on the store whose next call times out
  they answer 400.
\<close>

theorem NotFound_on_missing_witness:
  "stored empty_store (Email alice) = None \<and> goes_through empty_store \<and>
   fst (repository_UpdateUser (on_table demo_sdk) alice empty_store) = Inl ''user does not exist'' \<and>
   table (snd (repository_UpdateUser (on_table demo_sdk) alice empty_store)) = [] \<and>
   fst (repository_DeleteUser (on_table demo_sdk) ''a@b.com'' empty_store) =
     Some ''user does not exist'' \<and>
   table (snd (repository_DeleteUser (on_table demo_sdk) ''a@b.com'' empty_store)) = [] \<and>
   StatusCode (fst (fst (handlers_UpdateUser demo_json demo_handler put_alice empty_store))) = 404 \<and>
   StatusCode (fst (fst (handlers_UpdateUser demo_json demo_handler put_alice failing_store))) = 400 \<and>
   StatusCode (fst (fst (handlers_DeleteUser demo_json demo_handler delete_alice empty_store))) = 404 \<and>
   StatusCode (fst (fst (handlers_DeleteUser demo_json demo_handler delete_alice failing_store))) = 400"
proof -
  have absent: "stored empty_store (Email alice) = None" "stored empty_store ''a@b.com'' = None"
    "goes_through empty_store"
    by (simp_all add: table_examples next_fault_examples)
  have fails: "fst (repository_UpdateUser (on_table demo_sdk) alice failing_store) =
      Inl (Errorf ErrorFailedToFetchRecord ''timeout'')"
    "fst (repository_DeleteUser (on_table demo_sdk) ''a@b.com'' failing_store) =
      Some (Errorf ErrorFailedToFetchRecord ''timeout'')"
    by (simp_all add: UpdateUser_on_table DeleteUser_on_table next_fault_examples)
  note t1 = NotFound_on_missing [where s = empty_store and u = alice and c = demo_sdk
      and email = "''a@b.com''" and d = "on_table demo_sdk" and w = empty_store
      and j = demo_json and req = put_alice and h = demo_handler
      and w' = empty_store and err = ErrorUserDoesNotExist]
  note t2 = NotFound_on_missing [where s = empty_store and u = alice and c = demo_sdk
      and email = "''a@b.com''" and d = "on_table demo_sdk" and w = empty_store
      and j = demo_json and req = put_alice and h = demo_handler and w' = failing_store
      and err = "Errorf ErrorFailedToFetchRecord ''timeout''"]
  note t3 = NotFound_on_missing [where s = empty_store and u = alice and c = demo_sdk
      and email = "''a@b.com''" and d = "on_table demo_sdk" and w = empty_store
      and j = demo_json and req = delete_alice and h = demo_handler
      and w' = empty_store and err = ErrorUserDoesNotExist]
  note t4 = NotFound_on_missing [where s = empty_store and u = alice and c = demo_sdk
      and email = "''a@b.com''" and d = "on_table demo_sdk" and w = empty_store
      and j = demo_json and req = delete_alice and h = demo_handler and w' = failing_store
      and err = "Errorf ErrorFailedToFetchRecord ''timeout''"]
  from absent t1 have a: "fst (repository_UpdateUser (on_table demo_sdk) alice empty_store) = Inl ErrorUserDoesNotExist"
    "table (snd (repository_UpdateUser (on_table demo_sdk) alice empty_store)) = []"
    "fst (repository_DeleteUser (on_table demo_sdk) ''a@b.com'' empty_store) = Some ErrorUserDoesNotExist"
    "table (snd (repository_DeleteUser (on_table demo_sdk) ''a@b.com'' empty_store)) = []"
    by (simp_all add: table_examples)
  from a t1 have b: "StatusCode (fst (fst (handlers_UpdateUser demo_json demo_handler put_alice empty_store))) = 404"
    by (simp add: demo_json_put_alice ValidateUser_alice)
  from fails t2 have c: "StatusCode (fst (fst (handlers_UpdateUser demo_json demo_handler put_alice failing_store))) = 400"
    by (simp add: demo_json_put_alice ValidateUser_alice Errorf_not_DoesNotExist)
  from a t3 have d: "StatusCode (fst (fst (handlers_DeleteUser demo_json demo_handler delete_alice empty_store))) = 404"
    by (simp add: param_delete_alice)
  from fails t4 have e: "StatusCode (fst (fst (handlers_DeleteUser demo_json demo_handler delete_alice failing_store))) = 400"
    by (simp add: param_delete_alice Errorf_not_DoesNotExist)
  from absent a b c d e show ?thesis
    by (simp add: ErrorUserDoesNotExist_def)
qed


text \<open>
  C5. After any number of the operations of a sequence, run from a store in which no
  two records share an email, whatever calls fail on the way, no two records of the
  store share an email: two records of it with the same email are the same record.
\<close>

theorem unique_emails_kept:
  assumes "unique_emails w"
  shows "unique_emails (run_operations c (take n ops) w) \<and>
         (\<forall>x \<in> set (table (run_operations c (take n ops) w)).
            \<forall>y \<in> set (table (run_operations c (take n ops) w)). Email x = Email y \<longrightarrow> x = y)"
  using unique_run_operations [OF assms, of c "take n ops"]
  by (auto dest: unique_emails_key)


lemma run_example:
  "table (run_operations demo_sdk
     [Create alice, Create (alice\<lparr>FirstName := ''C''\<rparr>), Update (alice\<lparr>LastName := ''D''\<rparr>)]
     empty_store) = [alice\<lparr>LastName := ''D''\<rparr>]"
  by (simp add: run_operations_def CreateUser_on_table UpdateUser_on_table next_fault_examples
      table_examples next_fault_def empty_store_def alice_def)

text \<open>
  Two creates of \<open>alice\<close> (the second with another first name) and an update on the
  empty store leave one record.
\<close>

theorem unique_emails_kept_witness:
  "unique_emails empty_store \<and>
   table (run_operations demo_sdk
     (take 3 [Create alice, Create (alice\<lparr>FirstName := ''C''\<rparr>),
        Update (alice\<lparr>LastName := ''D''\<rparr>), Delete ''a@b.com''])
     empty_store) = [alice\<lparr>LastName := ''D''\<rparr>] \<and>
   unique_emails (run_operations demo_sdk
     (take 3 [Create alice, Create (alice\<lparr>FirstName := ''C''\<rparr>),
        Update (alice\<lparr>LastName := ''D''\<rparr>), Delete ''a@b.com''])
     empty_store)"
proof -
  have u: "unique_emails empty_store" by (simp add: unique_emails_def table_examples)
  have "take 3 [Create alice, Create (alice\<lparr>FirstName := ''C''\<rparr>),
        Update (alice\<lparr>LastName := ''D''\<rparr>), Delete ''a@b.com''] =
     [Create alice, Create (alice\<lparr>FirstName := ''C''\<rparr>), Update (alice\<lparr>LastName := ''D''\<rparr>)]"
    by (simp add: numeral_3_eq_3)
  with u run_example
    unique_emails_kept [OF u, of demo_sdk 3 "[Create alice, Create (alice\<lparr>FirstName := ''C''\<rparr>),
        Update (alice\<lparr>LastName := ''D''\<rparr>), Delete ''a@b.com'']"]
  show ?thesis by simp
qed

section \<open>Response formatting\<close>

lemma apiResponse_Inr:
  "Marshal j b = Inr s \<Longrightarrow>
     apiResponse j status b =
       (\<lparr>StatusCode = status, Headers = [''Content-Type'' \<mapsto> ''application/json''],
         Body = s\<rparr>, None)"
  by (simp add: apiResponse_def)

lemma marshal_string_fallback:
  \<open>marshal_string j ''Failed to marshal response body'' =
     ''"Failed to marshal response body"''\<close>
  by (simp add: marshal_string_def plain_def)

lemma apiResponse_Inl:
  \<open>Marshal j b = Inl e \<Longrightarrow>
     apiResponse j status b =
       (\<lparr>StatusCode = 500, Headers = [''Content-Type'' \<mapsto> ''application/json''],
         Body = ''{"error":"Failed to marshal response body"}''\<rparr>, None)\<close>
  by (simp add: apiResponse_def marshal_string_fallback)

text \<open>
  C9. For every status code and every body, \<open>apiResponse\<close> returns a nil error and a
  response whose only header is the JSON content type. When \<^verbatim>\<open>json.Marshal\<close> encodes
  the body, the response has the given status and the encoding as its body. When
  \<^verbatim>\<open>json.Marshal\<close> fails, the response has status 500, whatever the given status,
  and its body is the fixed object whose \<^verbatim>\<open>error\<close> field is
  \<^verbatim>\<open>Failed to marshal response body\<close> (written without a space after the colon).
\<close>

theorem apiResponse_format:
  \<open>snd (apiResponse j status b) = None \<and>
   Headers (fst (apiResponse j status b)) = [''Content-Type'' \<mapsto> ''application/json''] \<and>
   (\<forall>s. Marshal j b = Inr s \<longrightarrow>
      StatusCode (fst (apiResponse j status b)) = status \<and>
      Body (fst (apiResponse j status b)) = s) \<and>
   (\<forall>e. Marshal j b = Inl e \<longrightarrow>
      StatusCode (fst (apiResponse j status b)) = 500 \<and>
      Body (fst (apiResponse j status b)) = ''{"error":"Failed to marshal response body"}'')\<close>
  by (cases "Marshal j b") (simp_all add: apiResponse_Inr apiResponse_Inl)

text \<open>
  A value that \<^verbatim>\<open>json.Marshal\<close> refuses, given with status 200, is answered with
  status 500 and the fixed body; the record of \<open>alice\<close> with status 201 is answered
  as it is.
\<close>

theorem apiResponse_format_witness:
  \<open>Marshal demo_json (Other (Inl ''json: unsupported type: chan int'')) =
     Inl ''json: unsupported type: chan int'' \<and>
   apiResponse demo_json 200 (Other (Inl ''json: unsupported type: chan int'')) =
     (\<lparr>StatusCode = 500, Headers = [''Content-Type'' \<mapsto> ''application/json''],
       Body = ''{"error":"Failed to marshal response body"}''\<rparr>, None) \<and>
   Marshal demo_json (UserPtr (Some alice)) =
     Inr ''{"email":"a@b.com","firstName":"A","lastName":"B"}'' \<and>
   apiResponse demo_json 201 (UserPtr (Some alice)) =
     (\<lparr>StatusCode = 201, Headers = [''Content-Type'' \<mapsto> ''application/json''],
       Body = ''{"email":"a@b.com","firstName":"A","lastName":"B"}''\<rparr>, None)\<close>
proof -
  have m: \<open>Marshal demo_json (UserPtr (Some alice)) =
     Inr ''{"email":"a@b.com","firstName":"A","lastName":"B"}''\<close>
    by (simp add: marshal_User_def marshal_string_def plain_def alice_def)
  show ?thesis
    using m
      apiResponse_format [of demo_json 200 "Other (Inl ''json: unsupported type: chan int'')"]
      apiResponse_format [of demo_json 201 "UserPtr (Some alice)"]
    by (simp add: prod_eq_iff response.equality)
qed

text \<open>
  C8. What the code does with a nil body: \<^verbatim>\<open>json.Marshal(nil)\<close> is the four bytes
  \<^verbatim>\<open>null\<close>, and they are the body of the response, for every status. So the DELETE
  of \<open>alice\<close> on the store that holds her removes the record and is answered with
  status 204 and the body \<^verbatim>\<open>null\<close>, not with an empty body.
\<close>

theorem DeleteUser_body_null:
  "apiResponse j status nil =
     (\<lparr>StatusCode = status, Headers = [''Content-Type'' \<mapsto> ''application/json''],
       Body = ''null''\<rparr>, None) \<and>
   handlers_DeleteUser j demo_handler delete_alice alice_store =
     ((\<lparr>StatusCode = 204, Headers = [''Content-Type'' \<mapsto> ''application/json''],
        Body = ''null''\<rparr>, None), empty_store)"
proof -
  have "alice_store\<lparr>table := []\<rparr> = empty_store"
    by (simp add: alice_store_def empty_store_def)
  then have "repository_DeleteUser (on_table demo_sdk) ''a@b.com'' alice_store = (None, empty_store)"
    by (simp add: DeleteUser_on_table Let_def next_fault_examples table_examples alice_def)
  then show ?thesis
    by (simp add: handlers_DeleteUser_def param_delete_alice apiResponse_def)
qed

section \<open>Request handler\<close>

lemma GetUser_page:
  assumes "param (QueryStringParameters req) ''email'' = ''''"
  shows "handlers_GetUser j h req w =
     (case FetchUsers (userRepo h) (page_limit (param (QueryStringParameters req) ''limit''))
             (param (QueryStringParameters req) ''lastEvaluatedKey'') w of
        (Inl err, w') \<Rightarrow> (apiResponse j 400 (ErrorBody (Some err)), w')
      | (Inr (us, k), w') \<Rightarrow>
          (apiResponse j 200 (UsersMap us (if k = '''' then None else Some k)), w'))"
  using assms
  by (auto simp: handlers_GetUser_def Let_def split: prod.splits sum.splits)

lemma GetUser_one:
  assumes "param (QueryStringParameters req) ''email'' \<noteq> ''''"
  shows "handlers_GetUser j h req w =
     (case FetchUser (userRepo h) (param (QueryStringParameters req) ''email'') w of
        (Inl err, w') \<Rightarrow> (apiResponse j 400 (ErrorBody (Some err)), w')
      | (Inr None, w') \<Rightarrow> (apiResponse j 404 (ErrorBody (Some ''User not found'')), w')
      | (Inr (Some u), w') \<Rightarrow> (apiResponse j 200 (UserPtr (Some u)), w'))"
  using assms by (simp add: handlers_GetUser_def Let_def)

lemma page_limit_eq:
  "page_limit s = (case Atoi s of None \<Rightarrow> 10 | Some l \<Rightarrow> if l \<le> 0 then 10 else l)"
  by (cases s) (auto simp: page_limit_def Let_def split: option.splits)

lemma page_limit_pos: "0 < page_limit s"
  by (simp add: page_limit_eq split: option.splits)

lemma marshal_string_not_found:
  \<open>marshal_string j ''User not found'' = ''"User not found"''\<close>
  by (simp add: marshal_string_def plain_def)

lemma apiResponse_ErrorBody:
  \<open>apiResponse j status (ErrorBody (Some m)) =
     (\<lparr>StatusCode = status, Headers = [''Content-Type'' \<mapsto> ''application/json''],
       Body = ''{"error":'' @ marshal_string j m @ ''}''\<rparr>, None)\<close>
  by (simp add: apiResponse_def)

lemma apiResponse_UserPtr:
  "apiResponse j status (UserPtr (Some u)) =
     (\<lparr>StatusCode = status, Headers = [''Content-Type'' \<mapsto> ''application/json''],
       Body = marshal_User j u\<rparr>, None)"
  by (simp add: apiResponse_def)

lemma apiResponse_UsersMap:
  \<open>apiResponse j status (UsersMap us (if k = '''' then None else Some k)) =
     (\<lparr>StatusCode = status, Headers = [''Content-Type'' \<mapsto> ''application/json''],
       Body = (if k = '''' then ''{"users":'' @ marshal_users j us @ ''}''
               else ''{"lastEvaluatedKey":'' @ marshal_string j k @ '',"users":'' @
                    marshal_users j us @ ''}'')\<rparr>, None)\<close>
  by (simp add: apiResponse_def)

lemma page_limit_examples:
  "page_limit ''25'' = 25" "page_limit ''abc'' = 10" "page_limit ''0'' = 10"
  "page_limit ''-3'' = 10" "page_limit '''' = 10" "page_limit ''+7'' = 7"
  "page_limit ''9223372036854775808'' = 10"
  by (simp_all add: page_limit_def digit_def digits_value_def)

lemma FetchUsers_demo:
  "repository_FetchUsers (on_table demo_sdk) limit '''' w = (Inr (Some (table w), ''''), w)"
  by (simp add: repository_FetchUsers_def on_table_def demo_sdk_def scan_all_def)

lemma marshal_alice:
  \<open>marshal_User demo_json alice = ''{"email":"a@b.com","firstName":"A","lastName":"B"}''\<close>
  by (simp add: marshal_User_def marshal_string_def plain_def alice_def)

lemma get_page_params:
  "QueryStringParameters get_page ''email'' = None"
  "param (QueryStringParameters get_page) ''limit'' = ''25''"
  "param (QueryStringParameters get_page) ''lastEvaluatedKey'' = ''''"
  by (simp_all add: get_page_def param_def)

lemma get_empty_email_params:
  "QueryStringParameters get_empty_email ''email'' = Some ''''"
  "param (QueryStringParameters get_empty_email) ''limit'' = ''''"
  "param (QueryStringParameters get_empty_email) ''lastEvaluatedKey'' = ''''"
  by (simp_all add: get_empty_email_def param_def)

lemma Email_alice: "Email alice = ''a@b.com''"
  by (simp add: alice_def)

lemma get_alice_params:
  "QueryStringParameters get_alice ''email'' = Some ''a@b.com''"
  by (simp_all add: get_alice_def)

text \<open>
  C6, amended. For a GET request whose \<^verbatim>\<open>email\<close> parameter is present and not
  empty, the answer is that of \<open>FetchUser\<close> on this email: a nil record is answered
  with 404 and the body \<^verbatim>\<open>{"error":"User not found"}\<close>, a failure with 400 and the
  message of the error in the \<^verbatim>\<open>error\<close> field, a record with 200 and the record.
\<close>

theorem GetUser_by_email:
  assumes "QueryStringParameters req ''email'' = Some email" and "email \<noteq> ''''"
  shows
   \<open>(\<forall>w'. FetchUser (userRepo h) email w = (Inr None, w') \<longrightarrow>
       handlers_GetUser j h req w =
         ((\<lparr>StatusCode = 404, Headers = [''Content-Type'' \<mapsto> ''application/json''],
            Body = ''{"error":"User not found"}''\<rparr>, None), w')) \<and>
    (\<forall>err w'. FetchUser (userRepo h) email w = (Inl err, w') \<longrightarrow>
       handlers_GetUser j h req w =
         ((\<lparr>StatusCode = 400, Headers = [''Content-Type'' \<mapsto> ''application/json''],
            Body = ''{"error":'' @ marshal_string j err @ ''}''\<rparr>, None), w')) \<and>
    (\<forall>u w'. FetchUser (userRepo h) email w = (Inr (Some u), w') \<longrightarrow>
       handlers_GetUser j h req w =
         ((\<lparr>StatusCode = 200, Headers = [''Content-Type'' \<mapsto> ''application/json''],
            Body = marshal_User j u\<rparr>, None), w'))\<close>
proof -
  from assms have p: "param (QueryStringParameters req) ''email'' = email"
    by (simp add: param_def)
  with assms(2) GetUser_one [of req j h w] show ?thesis
    by (simp add: apiResponse_ErrorBody apiResponse_UserPtr marshal_string_not_found)
qed

text \<open>
  C6 as it is stated fails for a parameter that is present and empty: on the empty
  store \<open>FetchUser\<close> of the empty email returns a nil record, yet the GET is not
  answered with 404 but with 200 and the empty page of users.
\<close>

theorem GetUser_by_email_counterexample:
  \<open>QueryStringParameters get_empty_email ''email'' = Some '''' \<and>
   fst (FetchUser (userRepo demo_handler) '''' empty_store) = Inr None \<and>
   fst (handlers_GetUser demo_json demo_handler get_empty_email empty_store) =
     (\<lparr>StatusCode = 200, Headers = [''Content-Type'' \<mapsto> ''application/json''],
       Body = ''{"users":[]}''\<rparr>, None) \<and>
   StatusCode (fst (fst (handlers_GetUser demo_json demo_handler get_empty_email empty_store)))
     \<noteq> 404\<close>
proof -
  have p: "param (QueryStringParameters get_empty_email) ''email'' = ''''"
    by (simp add: get_empty_email_def param_def)
  show ?thesis
    by (simp add: GetUser_page [OF p] get_empty_email_params FetchUsers_demo FetchUser_on_table
        next_fault_examples table_examples page_limit_examples apiResponse_def marshal_users_def)
qed

text \<open>
  The GET of \<open>alice\<close> by her email: 404 on the empty store, 200 and her record on
  the store that holds her, 400 and the error while the store is unreachable.
\<close>

theorem GetUser_by_email_witness:
  \<open>QueryStringParameters get_alice ''email'' = Some ''a@b.com'' \<and>
   FetchUser (userRepo demo_handler) ''a@b.com'' empty_store = (Inr None, empty_store) \<and>
   handlers_GetUser demo_json demo_handler get_alice empty_store =
     ((\<lparr>StatusCode = 404, Headers = [''Content-Type'' \<mapsto> ''application/json''],
        Body = ''{"error":"User not found"}''\<rparr>, None), empty_store) \<and>
   FetchUser (userRepo demo_handler) ''a@b.com'' alice_store = (Inr (Some alice), alice_store) \<and>
   handlers_GetUser demo_json demo_handler get_alice alice_store =
     ((\<lparr>StatusCode = 200, Headers = [''Content-Type'' \<mapsto> ''application/json''],
        Body = ''{"email":"a@b.com","firstName":"A","lastName":"B"}''\<rparr>, None), alice_store) \<and>
   FetchUser (userRepo demo_handler) ''a@b.com'' failing_store =
     (Inl ''failed to fetch record from DynamoDB: timeout'', alice_store) \<and>
   handlers_GetUser demo_json demo_handler get_alice failing_store =
     ((\<lparr>StatusCode = 400, Headers = [''Content-Type'' \<mapsto> ''application/json''],
        Body = ''{"error":"failed to fetch record from DynamoDB: timeout"}''\<rparr>, None),
      alice_store)\<close>
proof -
  have ne: "''a@b.com'' \<noteq> ''''" by simp
  have f: "FetchUser (userRepo demo_handler) ''a@b.com'' empty_store = (Inr None, empty_store)"
    "FetchUser (userRepo demo_handler) ''a@b.com'' alice_store = (Inr (Some alice), alice_store)"
    "FetchUser (userRepo demo_handler) ''a@b.com'' failing_store =
       (Inl ''failed to fetch record from DynamoDB: timeout'', alice_store)"
    by (simp_all add: FetchUser_on_table next_fault_examples table_examples alice_def
        Errorf_def ErrorFailedToFetchRecord_def)
  have m: \<open>marshal_string demo_json ''failed to fetch record from DynamoDB: timeout'' =
      ''"failed to fetch record from DynamoDB: timeout"''\<close>
    by (simp add: marshal_string_def plain_def)
  from f m get_alice_params
    GetUser_by_email [OF get_alice_params ne, of demo_handler empty_store demo_json]
    GetUser_by_email [OF get_alice_params ne, of demo_handler alice_store demo_json]
    GetUser_by_email [OF get_alice_params ne, of demo_handler failing_store demo_json]
  show ?thesis by (simp add: marshal_alice)
qed

text \<open>
  C7. For a GET request without an \<^verbatim>\<open>email\<close> parameter the answer is that of
  \<open>FetchUsers\<close>, called with the limit of the \<^verbatim>\<open>limit\<close> parameter and the
  \<^verbatim>\<open>lastEvaluatedKey\<close> parameter: a failure is answered with 400 and the message
  of the error; a page is answered with 200 and the users, with the field
  \<^verbatim>\<open>lastEvaluatedKey\<close> exactly when the key returned is not the empty string. The
  limit is positive; it is 10 when the parameter is missing, when \<^verbatim>\<open>Atoi\<close> fails on
  it and when its value is zero or negative, and the value of the parameter otherwise.
\<close>

theorem GetUser_without_email:
  assumes "QueryStringParameters req ''email'' = None"
  shows
   \<open>(\<forall>err w'. FetchUsers (userRepo h) (page_limit (param (QueryStringParameters req) ''limit''))
          (param (QueryStringParameters req) ''lastEvaluatedKey'') w = (Inl err, w') \<longrightarrow>
       handlers_GetUser j h req w =
         ((\<lparr>StatusCode = 400, Headers = [''Content-Type'' \<mapsto> ''application/json''],
            Body = ''{"error":'' @ marshal_string j err @ ''}''\<rparr>, None), w')) \<and>
    (\<forall>us k w'. FetchUsers (userRepo h) (page_limit (param (QueryStringParameters req) ''limit''))
          (param (QueryStringParameters req) ''lastEvaluatedKey'') w = (Inr (us, k), w') \<longrightarrow>
       handlers_GetUser j h req w =
         ((\<lparr>StatusCode = 200, Headers = [''Content-Type'' \<mapsto> ''application/json''],
            Body = (if k = '''' then ''{"users":'' @ marshal_users j us @ ''}''
                    else ''{"lastEvaluatedKey":'' @ marshal_string j k @ '',"users":'' @
                         marshal_users j us @ ''}'')\<rparr>, None), w')) \<and>
    0 < page_limit (param (QueryStringParameters req) ''limit'') \<and>
    (QueryStringParameters req ''limit'' = None \<longrightarrow>
       page_limit (param (QueryStringParameters req) ''limit'') = 10) \<and>
    (Atoi (param (QueryStringParameters req) ''limit'') = None \<longrightarrow>
       page_limit (param (QueryStringParameters req) ''limit'') = 10) \<and>
    (\<forall>l. Atoi (param (QueryStringParameters req) ''limit'') = Some l \<longrightarrow>
       page_limit (param (QueryStringParameters req) ''limit'') = (if l \<le> 0 then 10 else l))\<close>
proof -
  from assms have p: "param (QueryStringParameters req) ''email'' = ''''"
    by (simp add: param_def)
  have l: "QueryStringParameters req ''limit'' = None \<longrightarrow>
       page_limit (param (QueryStringParameters req) ''limit'') = 10"
    by (simp add: param_def page_limit_def)
  have a: "Atoi s = None \<longrightarrow> page_limit s = 10"
    and b: "\<forall>l. Atoi s = Some l \<longrightarrow> page_limit s = (if l \<le> 0 then 10 else l)" for s
    by (simp_all add: page_limit_eq)
  from GetUser_page [OF p, of j h w] show ?thesis
    by (intro conjI l a b page_limit_pos) (simp_all add: apiResponse_ErrorBody apiResponse_UsersMap)
qed

text \<open>
  A GET with \<^verbatim>\<open>limit=25\<close> on the store that holds \<open>alice\<close> asks for 25 users and
  is answered with the page of her record, without a key; limits that are no number,
  zero, negative or empty become 10.
\<close>

theorem GetUser_without_email_witness:
  \<open>QueryStringParameters get_page ''email'' = None \<and>
   page_limit (param (QueryStringParameters get_page) ''limit'') = 25 \<and>
   FetchUsers (userRepo demo_handler) 25 '''' alice_store = (Inr (Some [alice], ''''), alice_store) \<and>
   handlers_GetUser demo_json demo_handler get_page alice_store =
     ((\<lparr>StatusCode = 200, Headers = [''Content-Type'' \<mapsto> ''application/json''],
        Body = ''{"users":[{"email":"a@b.com","firstName":"A","lastName":"B"}]}''\<rparr>, None),
      alice_store) \<and>
   page_limit ''abc'' = 10 \<and> page_limit ''0'' = 10 \<and> page_limit ''-3'' = 10 \<and>
   page_limit '''' = 10\<close>
proof -
  have f: "FetchUsers (userRepo demo_handler) 25 '''' alice_store =
      (Inr (Some [alice], ''''), alice_store)"
    by (simp add: FetchUsers_demo table_examples)
  from f get_page_params
    GetUser_without_email [OF get_page_params(1), of demo_handler alice_store demo_json]
  show ?thesis
    by (simp add: page_limit_examples marshal_users_def marshal_alice)
qed

text \<open>
  C10. A GET request whose \<^verbatim>\<open>email\<close> parameter is present with the empty string as
  its value is answered from \<open>FetchUsers\<close>, as a request for a page is, and the answer
  does not depend on \<open>FetchUser\<close>: whatever function stands in its place, the answer
  is the same. When the value of the parameter is not empty the answer is that of
  \<open>FetchUser\<close> on the value, and does not depend on \<open>FetchUsers\<close>.
\<close>

theorem GetUser_empty_email_pages:
  \<open>(QueryStringParameters req ''email'' = Some '''' \<longrightarrow>
      handlers_GetUser j h req w =
        (case FetchUsers (userRepo h) (page_limit (param (QueryStringParameters req) ''limit''))
                (param (QueryStringParameters req) ''lastEvaluatedKey'') w of
           (Inl err, w') \<Rightarrow> (apiResponse j 400 (ErrorBody (Some err)), w')
         | (Inr (us, k), w') \<Rightarrow>
             (apiResponse j 200 (UsersMap us (if k = '''' then None else Some k)), w')) \<and>
      (\<forall>f. handlers_GetUser j (h\<lparr>userRepo := (userRepo h)\<lparr>FetchUser := f\<rparr>\<rparr>) req w =
           handlers_GetUser j h req w)) \<and>
   (\<forall>email. QueryStringParameters req ''email'' = Some email \<and> email \<noteq> '''' \<longrightarrow>
      handlers_GetUser j h req w =
        (case FetchUser (userRepo h) email w of
           (Inl err, w') \<Rightarrow> (apiResponse j 400 (ErrorBody (Some err)), w')
         | (Inr None, w') \<Rightarrow> (apiResponse j 404 (ErrorBody (Some ''User not found'')), w')
         | (Inr (Some u), w') \<Rightarrow> (apiResponse j 200 (UserPtr (Some u)), w')) \<and>
      (\<forall>f. handlers_GetUser j (h\<lparr>userRepo := (userRepo h)\<lparr>FetchUsers := f\<rparr>\<rparr>) req w =
           handlers_GetUser j h req w))\<close>
proof (intro conjI impI allI)
  assume "QueryStringParameters req ''email'' = Some ''''"
  then have p: "param (QueryStringParameters req) ''email'' = ''''" by (simp add: param_def)
  from GetUser_page [OF p]
  show "handlers_GetUser j h req w =
        (case FetchUsers (userRepo h) (page_limit (param (QueryStringParameters req) ''limit''))
                (param (QueryStringParameters req) ''lastEvaluatedKey'') w of
           (Inl err, w') \<Rightarrow> (apiResponse j 400 (ErrorBody (Some err)), w')
         | (Inr (us, k), w') \<Rightarrow>
             (apiResponse j 200 (UsersMap us (if k = '''' then None else Some k)), w'))" .
  fix f
  from p show "handlers_GetUser j (h\<lparr>userRepo := (userRepo h)\<lparr>FetchUser := f\<rparr>\<rparr>) req w =
           handlers_GetUser j h req w"
    by (simp add: GetUser_page)
next
  fix email
  assume "QueryStringParameters req ''email'' = Some email \<and> email \<noteq> ''''"
  then have p: "param (QueryStringParameters req) ''email'' = email" and ne: "email \<noteq> ''''"
    by (simp_all add: param_def)
  from p ne have q: "param (QueryStringParameters req) ''email'' \<noteq> ''''" by simp
  from GetUser_one [OF q, of j h w] p
  show "handlers_GetUser j h req w =
        (case FetchUser (userRepo h) email w of
           (Inl err, w') \<Rightarrow> (apiResponse j 400 (ErrorBody (Some err)), w')
         | (Inr None, w') \<Rightarrow> (apiResponse j 404 (ErrorBody (Some ''User not found'')), w')
         | (Inr (Some u), w') \<Rightarrow> (apiResponse j 200 (UserPtr (Some u)), w'))" by simp
  fix f
  from q show "handlers_GetUser j (h\<lparr>userRepo := (userRepo h)\<lparr>FetchUsers := f\<rparr>\<rparr>) req w =
           handlers_GetUser j h req w"
    by (simp add: GetUser_one)
qed

text \<open>
  On the store that holds \<open>alice\<close>, the GET with the empty email is answered with the
  page of all users, the GET with her email with her record.
\<close>

theorem GetUser_empty_email_pages_witness:
  \<open>QueryStringParameters get_empty_email ''email'' = Some '''' \<and>
   handlers_GetUser demo_json demo_handler get_empty_email alice_store =
     ((\<lparr>StatusCode = 200, Headers = [''Content-Type'' \<mapsto> ''application/json''],
        Body = ''{"users":[{"email":"a@b.com","firstName":"A","lastName":"B"}]}''\<rparr>, None),
      alice_store) \<and>
   QueryStringParameters get_alice ''email'' = Some ''a@b.com'' \<and>
   handlers_GetUser demo_json demo_handler get_alice alice_store =
     ((\<lparr>StatusCode = 200, Headers = [''Content-Type'' \<mapsto> ''application/json''],
        Body = ''{"email":"a@b.com","firstName":"A","lastName":"B"}''\<rparr>, None),
      alice_store)\<close>
  using get_empty_email_params get_alice_params
    GetUser_empty_email_pages [where req = get_empty_email and j = demo_json
      and h = demo_handler and w = alice_store]
    GetUser_empty_email_pages [where req = get_alice and j = demo_json
      and h = demo_handler and w = alice_store]
  by (simp add: FetchUsers_demo FetchUser_on_table next_fault_examples table_examples
      page_limit_examples apiResponse_def marshal_users_def marshal_alice Email_alice)

end
